theory Spec2Isabelle
  imports Main "HOL-Library.Word"
begin

section \<open>Data model of the access-group view\<close>

text \<open>
  The embedded functions are the ones of \<^verbatim>\<open>block_view_access_group.go\<close>
  (package \<^verbatim>\<open>lib\<close>) and of the three attribute files. A Go method on
  \<^verbatim>\<open>*UtxoView\<close> mutates the view in place, so every embedded method takes
  the view and returns the view it leaves behind, also when it returns an error. Go
  identifiers that start with an underscore lose it, since an Isabelle name cannot start
  with one. A pointer that the source tests against \<^verbatim>\<open>nil\<close> is an
  \<open>option\<close>.
\<close>

type_synonym byte = "8 word"
type_synonym bytes = "byte list"

text \<open>\<^verbatim>\<open>PublicKey\<close> is a byte array (the source slices it with \<^verbatim>\<open>[:]\<close> and
  uses it as a map key); \<^verbatim>\<open>GroupKeyName\<close> likewise.\<close>

type_synonym PublicKey = bytes
type_synonym GroupKeyName = bytes
type_synonym AttributeType = "16 word"

record AccessGroupKey =
  OwnerPublicKey :: PublicKey
  GroupKeyName :: GroupKeyName

record GroupMembershipKey =
  GroupMemberPublicKey_mk :: PublicKey
  GroupOwnerPublicKey_mk :: PublicKey
  GroupKeyName_mk :: GroupKeyName

record GroupEnumerationKey =
  GroupOwnerPublicKey_ek :: PublicKey
  GroupKeyName_ek :: GroupKeyName
  GroupMemberPublicKey_ek :: PublicKey

record AccessGroupMember =
  GroupMemberPublicKey :: PublicKey
  GroupMemberKeyName :: GroupKeyName
  EncryptedKey :: bytes
  isDeleted_m :: bool

record AccessGroupEntry =
  GroupOwnerPublicKey :: PublicKey
  AccessPublicKey :: PublicKey
  AccessGroupKeyName :: GroupKeyName
  DEPRECATED_AccessGroupMembers :: "AccessGroupMember option list"
  ExtraData :: "string \<rightharpoonup> bytes"
  BlockHeightCreated :: nat
  isDeleted :: bool

record AttributeEntry =
  IsSet :: bool
  Value :: bytes
  isDeleted_a :: bool

datatype error =
    RuleErrorAccessKeyBeforeBlockHeight
  | RuleErrorAccessGroupsBeforeBlockHeight
  | BadTxnType
  | RuleErrorAccessKeyNameCannotBeZeros
  | RuleErrorAccessKeyNameTooShort
  | RuleErrorAccessKeyNameTooLong
  | RuleErrorAccessPublicKeyCannotBeOwnerKey
  | RuleErrorAccessPublicKeyCannotBeDifferent
  | RuleErrorAccessKeyDoesntAddMembers
  | RuleErrorAccessMemberAlreadyExists
  | RuleErrorAccessMemberEncryptedKeyTooShort
  | RuleErrorAccessMemberKeyDoesntExist
  | RuleErrorAccessKeyDoesntExist
  | RuleErrorAccessGroupDoesntExist
  | RuleErrorAccessGroupOwnerMutingSelf
  | RuleErrorAccessGroupOwnerUnmutingSelf
  | RuleErrorAccessMemberNotInGroup
  | RuleErrorAccessMemberAlreadyMuted
  | RuleErrorAccessMemberAlreadyUnmuted
  | RuleErrorAccessGroupMemberOperationTypeNotSupported
  | RuleErrorAccessGroupAttributesInvalidAttributeHolder
  | RuleErrorAccessGroupAttributesOperationDenied
  | RuleErrorAccessGroupAttributesInvalidOperationType
  | Errorf string
  | CollaboratorError nat
  | NilPointerPanic
  | TypeAssertionPanic

text \<open>
  \<open>Errorf\<close> is an error made by \<^verbatim>\<open>fmt.Errorf\<close> (the string names the place),
  \<open>CollaboratorError\<close> an error returned by a function that is not part of these files,
  \<open>NilPointerPanic\<close> the panic of a nil dereference and \<open>TypeAssertionPanic\<close> the
  panic of an unchecked type assertion on a value of another type.
\<close>

datatype OperationType =
    OperationTypeCreateAccessGroup
  | OperationTypeAccessGroupMembers
  | OperationTypeAccessGroupAttributes
  | OperationTypeOther nat

datatype AccessGroupOperation =
    AccessGroupOperationAddMembers
  | AccessGroupOperationMuteMembers
  | AccessGroupOperationUnmuteMembers
  | AccessGroupOperationOther nat

datatype AccessGroupMemberOperationType =
    AccessGroupMemberOperationTypeAdd
  | AccessGroupMemberOperationTypeRemove
  | AccessGroupMemberOperationTypeOther nat

datatype AccessGroupAttributeHolder =
    AccessGroupAttributeHolderMember
  | AccessGroupAttributeHolderGroup
  | AccessGroupAttributeHolderOther nat

datatype AccessGroupAttributeOperationType =
    AccessGroupAttributeOperationTypeAdd
  | AccessGroupAttributeOperationTypeRemove
  | AccessGroupAttributeOperationTypeOther nat

text \<open>
  \<^verbatim>\<open>AttributeHolderKey\<close> is an interface value; the source switches on its dynamic
  type, with a \<^verbatim>\<open>default\<close> branch for any other type.
\<close>

datatype AttributeHolderKey =
    HolderGroupEnumerationKey GroupEnumerationKey
  | HolderAccessGroupKey AccessGroupKey
  | HolderOtherType

record UtxoOperation =
  Type :: OperationType
  PrevAccessKeyEntry :: "AccessGroupEntry option"
  PrevAccessGroupMembers :: "AccessGroupMember option list"
  PrevAccessGroupAttributeHolder :: AccessGroupAttributeHolder
  PrevAttributeHolderKey :: AttributeHolderKey
  PrevAccessGroupAttributeOperationType :: AccessGroupAttributeOperationType
  PrevAttributeType :: AttributeType
  PrevAttributeValue :: bytes

record CreateAccessGroupMetadata =
  AccessPublicKey_c :: bytes
  AccessGroupKeyName_c :: bytes
  GroupOwnerSignature_c :: bytes
  AccessGroupMembers_c :: "AccessGroupMember option list"

record AccessGroupMembersMetadata =
  AccessPublicKey_a :: bytes
  AccessGroupKeyName_a :: bytes
  AccessGroupMembers_a :: "AccessGroupMember option list"
  AccessGroupMemberOperationType_a :: AccessGroupMemberOperationType

record AccessGroupAttributesMetadata =
  AccessGroupAttributeHolder_t :: AccessGroupAttributeHolder
  AttributeHolderKey_t :: AttributeHolderKey
  AccessGroupAttributeOperationType_t :: AccessGroupAttributeOperationType
  AttributeType_t :: AttributeType
  AttributeValue_t :: bytes

datatype TxnMeta =
    MetaCreateAccessGroup CreateAccessGroupMetadata
  | MetaAccessGroupMembers AccessGroupMembersMetadata
  | MetaAccessGroupAttributes AccessGroupAttributesMetadata
  | MetaOther nat

record MsgDeSoTxn =
  TxnMeta :: TxnMeta
  PublicKey :: bytes
  TxnExtraData :: "string \<rightharpoonup> bytes"

text \<open>
  The view: the four overlay maps these files read and write, and the rest of the view
  (\<open>BasicTransferState\<close>), which only the basic transfer touches.
\<close>

record 'u UtxoView =
  AccessGroupKeyToAccessGroupEntry :: "AccessGroupKey \<rightharpoonup> AccessGroupEntry"
  GroupMembershipKeyToAccessGroupMember :: "GroupMembershipKey \<rightharpoonup> AccessGroupMember"
  GroupMemberAttributes :: "GroupEnumerationKey \<rightharpoonup> (AttributeType \<rightharpoonup> AttributeEntry)"
  GroupEntryAttributes :: "AccessGroupKey \<rightharpoonup> (AttributeType \<rightharpoonup> AttributeEntry)"
  BasicTransferState :: 'u

text \<open>
  What the files call and do not define is a parameter: the fork heights of
  \<^verbatim>\<open>bav.Params.ForkHeights\<close>, the durable store behind \<^verbatim>\<open>bav.Handle\<close>, the
  key validation, the basic transfer, the operation selector, the extra-data merge, the
  key derivation of unencrypted groups, the encode/decode copy of an entry, the member
  sort and the attribute type constant \<^verbatim>\<open>AccessGroupMemberAttributeIsMuted\<close>.
\<close>

record 'u Collaborators =
  DeSoV3MessagesBlockHeight :: nat
  DeSoAccessGroupsBlockHeight :: nat
  ExtraDataOnEntriesBlockHeight :: nat
  DBGetAccessGroupEntry :: "AccessGroupKey \<Rightarrow> AccessGroupEntry option"
  DBGetMemberFromMembershipIndex ::
    "PublicKey \<Rightarrow> PublicKey \<Rightarrow> GroupKeyName \<Rightarrow> AccessGroupMember option"
  DBGetAttributeEntryInGroupMemberAttributesIndex ::
    "PublicKey \<Rightarrow> GroupKeyName \<Rightarrow> PublicKey \<Rightarrow> AttributeType \<Rightarrow> error + AttributeEntry option"
  DBGetAttributeEntryInGroupEntryAttributesIndex ::
    "PublicKey \<Rightarrow> GroupKeyName \<Rightarrow> AttributeType \<Rightarrow> error + AttributeEntry option"
  IsByteArrayValidPublicKey :: "bytes \<Rightarrow> error option"
  connectBasicTransfer ::
    "MsgDeSoTxn \<Rightarrow> bytes \<Rightarrow> nat \<Rightarrow> bool \<Rightarrow> 'u \<Rightarrow> (error + nat \<times> nat \<times> UtxoOperation list) \<times> 'u"
  disconnectBasicTransfer ::
    "MsgDeSoTxn \<Rightarrow> bytes \<Rightarrow> UtxoOperation list \<Rightarrow> nat \<Rightarrow> 'u \<Rightarrow> error option \<times> 'u"
  GetAccessGroupOperation :: "MsgDeSoTxn \<Rightarrow> error + AccessGroupOperation"
  mergeExtraData :: "(string \<rightharpoonup> bytes) \<Rightarrow> (string \<rightharpoonup> bytes) \<Rightarrow> (string \<rightharpoonup> bytes)"
  GetS256BasePointCompressed :: bytes
  DeriveUnencryptedAccessPublicKey :: "bytes \<Rightarrow> PublicKey"
  EncodeDecodeEntry :: "nat \<Rightarrow> AccessGroupEntry \<Rightarrow> bool \<times> error option \<times> AccessGroupEntry"
  sortAccessGroupMembers :: "AccessGroupMember option list \<Rightarrow> AccessGroupMember option list"
  AccessGroupMemberAttributeIsMuted :: AttributeType

section \<open>Keys and constructors\<close>

definition MaxAccessKeyNameCharacters :: nat where
  "MaxAccessKeyNameCharacters = 32"

definition MinAccessKeyNameCharacters :: nat where
  "MinAccessKeyNameCharacters = 1"

definition PrivKeyBytesLen :: nat where
  "PrivKeyBytesLen = 32"

text \<open>Modelled from the spec: \<^verbatim>\<open>NewPublicKey\<close>, absent from these files, copies
  the bytes of a public key into the key type.\<close>

definition NewPublicKey :: "bytes \<Rightarrow> PublicKey" where
  "NewPublicKey publicKeyBytes = publicKeyBytes"

text \<open>Modelled from the spec: \<^verbatim>\<open>NewGroupKeyName\<close>, absent from these files; a
  group key name is always right-padded with zero bytes to the fixed 32-byte form.\<close>

definition NewGroupKeyName :: "bytes \<Rightarrow> GroupKeyName" where
  "NewGroupKeyName groupKeyName =
     take MaxAccessKeyNameCharacters
       (groupKeyName @ replicate (MaxAccessKeyNameCharacters - length groupKeyName) 0)"

text \<open>Modelled from the spec: \<^verbatim>\<open>BaseGroupKeyName\<close>, absent from these files; the
  base name is the all-zero 32-byte name.\<close>

definition BaseGroupKeyName :: GroupKeyName where
  "BaseGroupKeyName = replicate MaxAccessKeyNameCharacters 0"

text \<open>Modelled from the spec: \<^verbatim>\<open>EqualGroupKeyName\<close>, absent from these files;
  equality of names is byte-wise.\<close>

definition EqualGroupKeyName :: "GroupKeyName \<Rightarrow> GroupKeyName \<Rightarrow> bool" where
  "EqualGroupKeyName a b = (a = b)"

text \<open>Modelled from the spec: the three key constructors, absent from these files; a key
  holds the public keys as given and the name in its padded form. The argument order is
  the one of the calls in the source.\<close>

definition NewAccessGroupKey :: "PublicKey \<Rightarrow> bytes \<Rightarrow> AccessGroupKey" where
  "NewAccessGroupKey ownerPublicKey groupKeyName =
     \<lparr>OwnerPublicKey = ownerPublicKey, GroupKeyName = NewGroupKeyName groupKeyName\<rparr>"

definition NewGroupMembershipKey :: "PublicKey \<Rightarrow> PublicKey \<Rightarrow> bytes \<Rightarrow> GroupMembershipKey" where
  "NewGroupMembershipKey memberPublicKey groupOwnerPublicKey groupKeyName =
     \<lparr>GroupMemberPublicKey_mk = memberPublicKey, GroupOwnerPublicKey_mk = groupOwnerPublicKey,
      GroupKeyName_mk = NewGroupKeyName groupKeyName\<rparr>"

definition NewGroupEnumerationKey :: "PublicKey \<Rightarrow> bytes \<Rightarrow> PublicKey \<Rightarrow> GroupEnumerationKey" where
  "NewGroupEnumerationKey groupOwnerPublicKey groupKeyName memberPublicKey =
     \<lparr>GroupOwnerPublicKey_ek = groupOwnerPublicKey, GroupKeyName_ek = NewGroupKeyName groupKeyName,
      GroupMemberPublicKey_ek = memberPublicKey\<rparr>"

text \<open>Modelled from the spec: \<^verbatim>\<open>NewAccessGroupEntry\<close> and \<^verbatim>\<open>NewAttributeEntry\<close>,
  absent from these files, fill the fields of the data model from their arguments; the
  tombstone flag of a new record is unset.\<close>

definition NewAccessGroupEntry ::
  "PublicKey \<Rightarrow> PublicKey \<Rightarrow> GroupKeyName \<Rightarrow> AccessGroupMember option list \<Rightarrow>
   (string \<rightharpoonup> bytes) \<Rightarrow> nat \<Rightarrow> AccessGroupEntry" where
  "NewAccessGroupEntry groupOwnerPublicKey accessPublicKey accessGroupKeyName accessGroupMembers
       extraData blockHeight =
     \<lparr>GroupOwnerPublicKey = groupOwnerPublicKey, AccessPublicKey = accessPublicKey,
      AccessGroupKeyName = accessGroupKeyName, DEPRECATED_AccessGroupMembers = accessGroupMembers,
      ExtraData = extraData, BlockHeightCreated = blockHeight, isDeleted = False\<rparr>"

definition NewAttributeEntry :: "bool \<Rightarrow> bytes \<Rightarrow> AttributeEntry" where
  "NewAttributeEntry isSet value = \<lparr>IsSet = isSet, Value = value, isDeleted_a = False\<rparr>"

section \<open>The group registry and the membership index\<close>

definition setGroupMembershipKeyToAccessGroupMemberMapping ::
  "AccessGroupMember option \<Rightarrow> PublicKey \<Rightarrow> GroupKeyName \<Rightarrow> 'u UtxoView \<Rightarrow> 'u UtxoView" where
  "setGroupMembershipKeyToAccessGroupMemberMapping accessGroupMember groupOwnerPublicKey groupKeyName bav =
     (case accessGroupMember of
        None \<Rightarrow> bav
      | Some m \<Rightarrow>
          bav\<lparr>GroupMembershipKeyToAccessGroupMember :=
                (GroupMembershipKeyToAccessGroupMember bav)
                  (NewGroupMembershipKey (GroupMemberPublicKey m) groupOwnerPublicKey groupKeyName \<mapsto> m)\<rparr>)"

definition GetAccessGroupMember ::
  "'u Collaborators \<Rightarrow> PublicKey option \<Rightarrow> PublicKey option \<Rightarrow> GroupKeyName option \<Rightarrow> nat \<Rightarrow>
   'u UtxoView \<Rightarrow> AccessGroupMember option \<times> 'u UtxoView" where
  "GetAccessGroupMember env memberPublicKey groupOwnerPublicKey groupKeyName blockHeight bav =
     (case (memberPublicKey, groupOwnerPublicKey, groupKeyName) of
        (Some mpk, Some opk, Some gkn) \<Rightarrow>
          (case GroupMembershipKeyToAccessGroupMember bav (NewGroupMembershipKey mpk opk gkn) of
             Some mapValue \<Rightarrow> (Some mapValue, bav)
           | None \<Rightarrow>
               (case DBGetMemberFromMembershipIndex env mpk opk gkn of
                  Some accessGroupMember \<Rightarrow>
                    (Some accessGroupMember,
                     setGroupMembershipKeyToAccessGroupMemberMapping (Some accessGroupMember) opk gkn bav)
                | None \<Rightarrow> (None, bav)))
      | _ \<Rightarrow> (None, bav))"

definition setAccessGroupMember ::
  "PublicKey option \<Rightarrow> GroupKeyName option \<Rightarrow> AccessGroupMember option \<Rightarrow> nat \<Rightarrow>
   'u UtxoView \<Rightarrow> 'u UtxoView" where
  "setAccessGroupMember groupOwnerPublicKey groupKeyName accessGroupMember blockHeight bav =
     (case (accessGroupMember, groupOwnerPublicKey, groupKeyName) of
        (Some m, Some opk, Some gkn) \<Rightarrow>
          setGroupMembershipKeyToAccessGroupMemberMapping (Some m) opk gkn bav
      | _ \<Rightarrow> bav)"

definition deleteAccessGroupMember ::
  "AccessGroupMember option \<Rightarrow> PublicKey option \<Rightarrow> GroupKeyName option \<Rightarrow>
   'u UtxoView \<Rightarrow> 'u UtxoView" where
  "deleteAccessGroupMember accessGroupMember groupOwnerPublicKey groupKeyName bav =
     (case (accessGroupMember, groupOwnerPublicKey, groupKeyName) of
        (Some m, Some opk, Some gkn) \<Rightarrow>
          setGroupMembershipKeyToAccessGroupMemberMapping (Some (m\<lparr>isDeleted_m := True\<rparr>)) opk gkn bav
      | _ \<Rightarrow> bav)"

definition setAccessGroupKeyToAccessGroupEntryMapping ::
  "PublicKey \<Rightarrow> AccessGroupEntry option \<Rightarrow> 'u UtxoView \<Rightarrow> 'u UtxoView" where
  "setAccessGroupKeyToAccessGroupEntryMapping ownerPublicKey accessGroupEntry bav =
     (case accessGroupEntry of
        None \<Rightarrow> bav
      | Some e \<Rightarrow>
          bav\<lparr>AccessGroupKeyToAccessGroupEntry :=
                (AccessGroupKeyToAccessGroupEntry bav)
                  (\<lparr>OwnerPublicKey = ownerPublicKey, GroupKeyName = AccessGroupKeyName e\<rparr> \<mapsto> e)\<rparr>)"

definition deleteAccessGroupKeyToAccessGroupEntryMapping ::
  "PublicKey \<Rightarrow> AccessGroupEntry \<Rightarrow> 'u UtxoView \<Rightarrow> 'u UtxoView" where
  "deleteAccessGroupKeyToAccessGroupEntryMapping ownerPublicKey accessGroupEntry bav =
     setAccessGroupKeyToAccessGroupEntryMapping ownerPublicKey
       (Some (accessGroupEntry\<lparr>isDeleted := True\<rparr>)) bav"

text \<open>The entry that a read of a base-name key builds: the Go struct literal sets three
  fields and leaves the others at their zero values.\<close>

definition baseAccessGroupEntry :: "AccessGroupKey \<Rightarrow> AccessGroupEntry" where
  "baseAccessGroupEntry accessGroupKey =
     \<lparr>GroupOwnerPublicKey = NewPublicKey (OwnerPublicKey accessGroupKey),
      AccessPublicKey = NewPublicKey (OwnerPublicKey accessGroupKey),
      AccessGroupKeyName = BaseGroupKeyName,
      DEPRECATED_AccessGroupMembers = [], ExtraData = Map.empty,
      BlockHeightCreated = 0, isDeleted = False\<rparr>"

definition GetAccessGroupKeyToAccessGroupEntryMapping ::
  "'u Collaborators \<Rightarrow> AccessGroupKey \<Rightarrow> 'u UtxoView \<Rightarrow> AccessGroupEntry option \<times> 'u UtxoView" where
  "GetAccessGroupKeyToAccessGroupEntryMapping env accessGroupKey bav =
     (if EqualGroupKeyName (GroupKeyName accessGroupKey) BaseGroupKeyName
      then (Some (baseAccessGroupEntry accessGroupKey), bav)
      else (case AccessGroupKeyToAccessGroupEntry bav accessGroupKey of
        Some mapValue \<Rightarrow> (Some mapValue, bav)
      | None \<Rightarrow>
          (case DBGetAccessGroupEntry env accessGroupKey of
             Some accessGroupEntry \<Rightarrow>
               (Some accessGroupEntry,
                setAccessGroupKeyToAccessGroupEntryMapping (OwnerPublicKey accessGroupKey)
                  (Some accessGroupEntry) bav)
           | None \<Rightarrow> (None, bav))))"

definition GetAccessGroupEntry ::
  "'u Collaborators \<Rightarrow> PublicKey option \<Rightarrow> PublicKey option \<Rightarrow> GroupKeyName option \<Rightarrow> nat \<Rightarrow>
   'u UtxoView \<Rightarrow> AccessGroupEntry option \<times> 'u UtxoView" where
  "GetAccessGroupEntry env memberPublicKey groupOwnerPublicKey groupKeyName blockHeight bav =
     (case (memberPublicKey, groupOwnerPublicKey, groupKeyName) of
        (Some mpk, Some opk, Some gkn) \<Rightarrow>
          (case AccessGroupKeyToAccessGroupEntry bav (NewAccessGroupKey opk gkn) of
             Some mapValue \<Rightarrow> (Some mapValue, bav)
           | None \<Rightarrow> GetAccessGroupKeyToAccessGroupEntryMapping env (NewAccessGroupKey opk gkn) bav)
      | _ \<Rightarrow> (None, bav))"


section \<open>The attribute index\<close>

text \<open>
  The attribute maps have two levels, key then attribute type. Reading a missing outer
  key in Go yields a nil inner map, in which no attribute type exists.
\<close>

definition GetGroupMemberAttributeEntry ::
  "'u Collaborators \<Rightarrow> GroupEnumerationKey \<Rightarrow> AttributeType \<Rightarrow> 'u UtxoView \<Rightarrow>
   error + AttributeEntry option" where
  "GetGroupMemberAttributeEntry env enumerationKey attributeType bav =
     (case (case GroupMemberAttributes bav enumerationKey of
              None \<Rightarrow> None | Some inner \<Rightarrow> inner attributeType) of
        Some attributeEntry \<Rightarrow> Inr (Some attributeEntry)
      | None \<Rightarrow>
          (case DBGetAttributeEntryInGroupMemberAttributesIndex env
                  (GroupOwnerPublicKey_ek enumerationKey) (GroupKeyName_ek enumerationKey)
                  (GroupMemberPublicKey_ek enumerationKey) attributeType of
             Inl err \<Rightarrow> Inl err
           | Inr attributeEntry \<Rightarrow> Inr attributeEntry))"

definition setGroupMemberAttributeMapping ::
  "GroupEnumerationKey \<Rightarrow> AttributeType \<Rightarrow> AttributeEntry \<Rightarrow> 'u UtxoView \<Rightarrow> 'u UtxoView" where
  "setGroupMemberAttributeMapping enumerationKey attributeType attributeEntry bav =
     bav\<lparr>GroupMemberAttributes :=
           (GroupMemberAttributes bav)
             (enumerationKey \<mapsto>
                (case GroupMemberAttributes bav enumerationKey of
                   None \<Rightarrow> Map.empty | Some inner \<Rightarrow> inner)
                (attributeType \<mapsto> attributeEntry))\<rparr>"


definition GetGroupEntryAttributeEntry ::
  "'u Collaborators \<Rightarrow> PublicKey \<Rightarrow> GroupKeyName \<Rightarrow> AttributeType \<Rightarrow> 'u UtxoView \<Rightarrow>
   error + AttributeEntry option" where
  "GetGroupEntryAttributeEntry env groupOwnerPublicKey groupKeyName attributeType bav =
     (case (case GroupEntryAttributes bav (NewAccessGroupKey groupOwnerPublicKey groupKeyName) of
              None \<Rightarrow> None | Some inner \<Rightarrow> inner attributeType) of
        Some attributeEntry \<Rightarrow> Inr (Some attributeEntry)
      | None \<Rightarrow>
          (case DBGetAttributeEntryInGroupEntryAttributesIndex env groupOwnerPublicKey groupKeyName
                  attributeType of
             Inl err \<Rightarrow> Inl err
           | Inr attributeEntry \<Rightarrow> Inr attributeEntry))"

definition setGroupEntryAttributeMapping ::
  "AccessGroupKey \<Rightarrow> AttributeType \<Rightarrow> AttributeEntry \<Rightarrow> 'u UtxoView \<Rightarrow> 'u UtxoView" where
  "setGroupEntryAttributeMapping accessGroupKey attributeType attributeEntry bav =
     bav\<lparr>GroupEntryAttributes :=
           (GroupEntryAttributes bav)
             (accessGroupKey \<mapsto>
                (case GroupEntryAttributes bav accessGroupKey of
                   None \<Rightarrow> Map.empty | Some inner \<Rightarrow> inner)
                (attributeType \<mapsto> attributeEntry))\<rparr>"


section \<open>Deep equality of Go values\<close>

text \<open>
  \<^verbatim>\<open>reflect.DeepEqual\<close> takes two interface values and compares their dynamic types
  before their contents: values of distinct types are never deeply equal. The values it
  is given in these files are byte slices (\<^verbatim>\<open>[]byte\<close>, also every \<^verbatim>\<open>x[:]\<close>), key
  arrays, and pointers to key arrays. A pointer is deeply equal to a pointer whose target
  is deeply equal. The byte slices compared in these files have passed the key validation,
  so the difference Go makes between a nil and an empty slice does not arise.
\<close>

datatype GoValue =
    ByteSlice bytes
  | PublicKeyArray PublicKey
  | GroupKeyNameArray GroupKeyName
  | PublicKeyPointer PublicKey
  | GroupKeyNamePointer GroupKeyName

fun reflect_DeepEqual :: "GoValue \<Rightarrow> GoValue \<Rightarrow> bool" where
  "reflect_DeepEqual (ByteSlice a) (ByteSlice b) = (a = b)"
| "reflect_DeepEqual (PublicKeyArray a) (PublicKeyArray b) = (a = b)"
| "reflect_DeepEqual (GroupKeyNameArray a) (GroupKeyNameArray b) = (a = b)"
| "reflect_DeepEqual (PublicKeyPointer a) (PublicKeyPointer b) = (a = b)"
| "reflect_DeepEqual (GroupKeyNamePointer a) (GroupKeyNamePointer b) = (a = b)"
| "reflect_DeepEqual _ _ = False"

section \<open>The attributes transaction\<close>

text \<open>
  A \<^verbatim>\<open>UtxoOperation\<close> literal sets some fields; the others keep their zero value.
\<close>

definition zeroUtxoOperation :: UtxoOperation where
  "zeroUtxoOperation =
     \<lparr>Type = OperationTypeOther 0, PrevAccessKeyEntry = None, PrevAccessGroupMembers = [],
      PrevAccessGroupAttributeHolder = AccessGroupAttributeHolderOther 0,
      PrevAttributeHolderKey = HolderOtherType,
      PrevAccessGroupAttributeOperationType = AccessGroupAttributeOperationTypeOther 0,
      PrevAttributeType = 0, PrevAttributeValue = []\<rparr>"

definition attributesUtxoOperation ::
  "AccessGroupAttributeHolder \<Rightarrow> AttributeHolderKey \<Rightarrow> AccessGroupAttributeOperationType \<Rightarrow>
   AttributeType \<Rightarrow> bytes \<Rightarrow> UtxoOperation" where
  "attributesUtxoOperation holder holderKey operationType attributeType attributeValue =
     zeroUtxoOperation
       \<lparr>Type := OperationTypeAccessGroupAttributes,
        PrevAccessGroupAttributeHolder := holder,
        PrevAttributeHolderKey := holderKey,
        PrevAccessGroupAttributeOperationType := operationType,
        PrevAttributeType := attributeType,
        PrevAttributeValue := attributeValue\<rparr>"

text \<open>
  In \<^verbatim>\<open>_connectAccessGroupAttributes\<close> the owner test compares
  \<^verbatim>\<open>groupOwnerPublicKey\<close>, the address of the owner field of the holder key and so a
  pointer to a key array, with \<^verbatim>\<open>txn.PublicKey\<close>, the byte slice that
  \<^verbatim>\<open>IsByteArrayValidPublicKey\<close> and \<^verbatim>\<open>NewPublicKey\<close> take elsewhere in the file.
\<close>

definition connectAccessGroupAttributes ::
  "'u Collaborators \<Rightarrow> MsgDeSoTxn \<Rightarrow> bytes \<Rightarrow> nat \<Rightarrow> bool \<Rightarrow> 'u UtxoView \<Rightarrow>
   (error + nat \<times> nat \<times> UtxoOperation list) \<times> 'u UtxoView" where
  "connectAccessGroupAttributes env txn txHash blockHeight verifySignatures bav =
     (if blockHeight < DeSoV3MessagesBlockHeight env
      then (Inl RuleErrorAccessGroupsBeforeBlockHeight, bav)
      else (case TxnMeta txn of
        MetaAccessGroupAttributes txMeta \<Rightarrow>
          (case connectBasicTransfer env txn txHash blockHeight verifySignatures
                  (BasicTransferState bav) of
             (Inl err, u) \<Rightarrow> (Inl err, bav\<lparr>BasicTransferState := u\<rparr>)
           | (Inr (totalInput, totalOutput, utxoOpsForTxn), u) \<Rightarrow>
               (let bav1 = bav\<lparr>BasicTransferState := u\<rparr> in
                case AttributeHolderKey_t txMeta of
                  HolderGroupEnumerationKey enumerationKey \<Rightarrow>
                    (if AccessGroupAttributeHolder_t txMeta \<noteq> AccessGroupAttributeHolderMember
                     then (Inl RuleErrorAccessGroupAttributesInvalidAttributeHolder, bav1)
                     else if \<not> reflect_DeepEqual
                                 (PublicKeyPointer (GroupOwnerPublicKey_ek enumerationKey))
                                 (ByteSlice (PublicKey txn))
                     then (Inl RuleErrorAccessGroupAttributesOperationDenied, bav1)
                     else (case AccessGroupAttributeOperationType_t txMeta of
                        AccessGroupAttributeOperationTypeAdd \<Rightarrow>
                          (Inr (totalInput, totalOutput,
                                utxoOpsForTxn @
                                  [attributesUtxoOperation AccessGroupAttributeHolderMember
                                     (HolderGroupEnumerationKey enumerationKey)
                                     AccessGroupAttributeOperationTypeAdd
                                     (AttributeType_t txMeta) (AttributeValue_t txMeta)]),
                           setGroupMemberAttributeMapping enumerationKey (AttributeType_t txMeta)
                             (NewAttributeEntry True (AttributeValue_t txMeta)) bav1)
                      | AccessGroupAttributeOperationTypeRemove \<Rightarrow>
                          (Inr (totalInput, totalOutput,
                                utxoOpsForTxn @
                                  [attributesUtxoOperation AccessGroupAttributeHolderMember
                                     (HolderGroupEnumerationKey enumerationKey)
                                     AccessGroupAttributeOperationTypeRemove
                                     (AttributeType_t txMeta) (AttributeValue_t txMeta)]),
                           setGroupMemberAttributeMapping enumerationKey (AttributeType_t txMeta)
                             (NewAttributeEntry False (AttributeValue_t txMeta)) bav1)
                      | AccessGroupAttributeOperationTypeOther x \<Rightarrow>
                          (Inl RuleErrorAccessGroupAttributesInvalidOperationType, bav1)))
                | HolderAccessGroupKey accessGroupKey \<Rightarrow>
                    (if AccessGroupAttributeHolder_t txMeta \<noteq> AccessGroupAttributeHolderGroup
                     then (Inl RuleErrorAccessGroupAttributesInvalidAttributeHolder, bav1)
                     else if \<not> reflect_DeepEqual
                                 (PublicKeyPointer (OwnerPublicKey accessGroupKey))
                                 (ByteSlice (PublicKey txn))
                     then (Inl RuleErrorAccessGroupAttributesOperationDenied, bav1)
                     else (case AccessGroupAttributeOperationType_t txMeta of
                        AccessGroupAttributeOperationTypeAdd \<Rightarrow>
                          (Inr (totalInput, totalOutput,
                                utxoOpsForTxn @
                                  [attributesUtxoOperation AccessGroupAttributeHolderGroup
                                     (HolderAccessGroupKey accessGroupKey)
                                     AccessGroupAttributeOperationTypeAdd
                                     (AttributeType_t txMeta) (AttributeValue_t txMeta)]),
                           setGroupEntryAttributeMapping accessGroupKey (AttributeType_t txMeta)
                             (NewAttributeEntry True (AttributeValue_t txMeta)) bav1)
                      | AccessGroupAttributeOperationTypeRemove \<Rightarrow>
                          (Inr (totalInput, totalOutput,
                                utxoOpsForTxn @
                                  [attributesUtxoOperation AccessGroupAttributeHolderGroup
                                     (HolderAccessGroupKey accessGroupKey)
                                     AccessGroupAttributeOperationTypeRemove
                                     (AttributeType_t txMeta) (AttributeValue_t txMeta)]),
                           setGroupEntryAttributeMapping accessGroupKey (AttributeType_t txMeta)
                             (NewAttributeEntry False (AttributeValue_t txMeta)) bav1)
                      | AccessGroupAttributeOperationTypeOther x \<Rightarrow>
                          (Inl RuleErrorAccessGroupAttributesInvalidOperationType, bav1)))
                | HolderOtherType \<Rightarrow>
                    (Inl (Errorf ''called with bad AttributeHolderType''), bav1)))
      | _ \<Rightarrow> (Inl BadTxnType, bav)))"


section \<open>The members transaction\<close>

definition ValidateGroupPublicKeyAndName :: "'u Collaborators \<Rightarrow> bytes \<Rightarrow> bytes \<Rightarrow> error option" where
  "ValidateGroupPublicKeyAndName env accessPublicKey keyName =
     (case IsByteArrayValidPublicKey env accessPublicKey of
        Some err \<Rightarrow> Some err
      | None \<Rightarrow>
          if length keyName < MinAccessKeyNameCharacters then Some RuleErrorAccessKeyNameTooShort
          else if length keyName > MaxAccessKeyNameCharacters then Some RuleErrorAccessKeyNameTooLong
          else None)"

text \<open>
  The loop that validates the members of a transaction. The post-fork branch of
  \<^verbatim>\<open>_connectAccessGroupCreate\<close> and the \<^verbatim>\<open>Add\<close> case of
  \<^verbatim>\<open>_connectAccessGroupMembers\<close> hold the same loop, statement for statement. The
  accumulator is \<^verbatim>\<open>newAccessMembers\<close>; the view changes when a read of a member's
  own group loads it from the store into the overlay.
\<close>

fun validateMembers ::
  "'u Collaborators \<Rightarrow> AccessGroupMember option list \<Rightarrow> AccessGroupMember option list \<Rightarrow>
   'u UtxoView \<Rightarrow> (error + AccessGroupMember option list) \<times> 'u UtxoView" where
  "validateMembers env [] newAccessMembers bav = (Inr newAccessMembers, bav)"
| "validateMembers env (None # rest) newAccessMembers bav = (Inl NilPointerPanic, bav)"
| "validateMembers env (Some accessMember # rest) newAccessMembers bav =
     (if length (EncryptedKey accessMember) < PrivKeyBytesLen
      then (Inl RuleErrorAccessMemberEncryptedKeyTooShort, bav)
      else (case ValidateGroupPublicKeyAndName env (GroupMemberPublicKey accessMember)
                   (GroupMemberKeyName accessMember) of
        Some err \<Rightarrow> (Inl err, bav)
      | None \<Rightarrow>
          (case GetAccessGroupKeyToAccessGroupEntryMapping env
                  (NewAccessGroupKey (GroupMemberPublicKey accessMember)
                     (GroupMemberKeyName accessMember)) bav of
             (None, bav1) \<Rightarrow> (Inl RuleErrorAccessMemberKeyDoesntExist, bav1)
           | (Some memberGroupEntry, bav1) \<Rightarrow>
               if isDeleted memberGroupEntry
               then (Inl RuleErrorAccessMemberKeyDoesntExist, bav1)
               else validateMembers env rest (newAccessMembers @ [Some accessMember]) bav1)))"

fun setAccessGroupMembers ::
  "PublicKey \<Rightarrow> GroupKeyName \<Rightarrow> AccessGroupMember option list \<Rightarrow> nat \<Rightarrow> 'u UtxoView \<Rightarrow> 'u UtxoView" where
  "setAccessGroupMembers groupOwnerPublicKey groupKeyName [] blockHeight bav = bav"
| "setAccessGroupMembers groupOwnerPublicKey groupKeyName (accessMember # rest) blockHeight bav =
     setAccessGroupMembers groupOwnerPublicKey groupKeyName rest blockHeight
       (setAccessGroupMember (Some groupOwnerPublicKey) (Some groupKeyName) accessMember
          blockHeight bav)"

text \<open>The key under which a transaction's group lives, and the access key to store:
  an access key equal to the base point selects the unencrypted group.\<close>

definition transactionGroupKey ::
  "'u Collaborators \<Rightarrow> bytes \<Rightarrow> bytes \<Rightarrow> bytes \<Rightarrow> AccessGroupKey \<times> PublicKey" where
  "transactionGroupKey env txnPublicKey metaAccessPublicKey metaAccessGroupKeyName =
     (if reflect_DeepEqual (ByteSlice metaAccessPublicKey)
           (ByteSlice (GetS256BasePointCompressed env))
      then (NewAccessGroupKey (NewPublicKey (GetS256BasePointCompressed env)) metaAccessGroupKeyName,
            NewPublicKey (DeriveUnencryptedAccessPublicKey env metaAccessGroupKeyName))
      else (NewAccessGroupKey (NewPublicKey txnPublicKey) metaAccessGroupKeyName,
            NewPublicKey metaAccessPublicKey))"

definition connectAccessGroupMembers ::
  "'u Collaborators \<Rightarrow> MsgDeSoTxn \<Rightarrow> bytes \<Rightarrow> nat \<Rightarrow> bool \<Rightarrow> 'u UtxoView \<Rightarrow>
   (error + nat \<times> nat \<times> UtxoOperation list) \<times> 'u UtxoView" where
  "connectAccessGroupMembers env txn txHash blockHeight verifySignatures bav =
     (if blockHeight < DeSoV3MessagesBlockHeight env
      then (Inl RuleErrorAccessGroupsBeforeBlockHeight, bav)
      else (case TxnMeta txn of
        MetaAccessGroupMembers txMeta \<Rightarrow>
          (if EqualGroupKeyName (NewGroupKeyName (AccessGroupKeyName_a txMeta)) BaseGroupKeyName
           then (Inl RuleErrorAccessKeyNameCannotBeZeros, bav)
           else (case ValidateGroupPublicKeyAndName env (AccessPublicKey_a txMeta)
                        (AccessGroupKeyName_a txMeta) of
             Some err \<Rightarrow> (Inl err, bav)
           | None \<Rightarrow>
           (case IsByteArrayValidPublicKey env (PublicKey txn) of
             Some err \<Rightarrow> (Inl err, bav)
           | None \<Rightarrow>
           (if reflect_DeepEqual (ByteSlice (AccessPublicKey_a txMeta)) (ByteSlice (PublicKey txn))
            then (Inl RuleErrorAccessPublicKeyCannotBeOwnerKey, bav)
            else (case connectBasicTransfer env txn txHash blockHeight verifySignatures
                         (BasicTransferState bav) of
              (Inl err, u) \<Rightarrow> (Inl err, bav\<lparr>BasicTransferState := u\<rparr>)
            | (Inr (totalInput, totalOutput, utxoOpsForTxn), u) \<Rightarrow>
                (let (accessGroupKey, accessPublicKey) =
                       transactionGroupKey env (PublicKey txn) (AccessPublicKey_a txMeta)
                         (AccessGroupKeyName_a txMeta)
                 in case GetAccessGroupKeyToAccessGroupEntryMapping env accessGroupKey
                           (bav\<lparr>BasicTransferState := u\<rparr>) of
                   (None, bav1) \<Rightarrow> (Inl RuleErrorAccessKeyDoesntExist, bav1)
                 | (Some existingEntry, bav1) \<Rightarrow>
                     (if isDeleted existingEntry
                      then (Inl RuleErrorAccessKeyDoesntExist, bav1)
                      else if \<not> reflect_DeepEqual (ByteSlice (AccessPublicKey existingEntry))
                                  (ByteSlice accessPublicKey)
                      then (Inl RuleErrorAccessPublicKeyCannotBeDifferent, bav1)
                      else (case AccessGroupMemberOperationType_a txMeta of
                        AccessGroupMemberOperationTypeAdd \<Rightarrow>
                          (case validateMembers env (AccessGroupMembers_a txMeta) [] bav1 of
                             (Inl err, bav2) \<Rightarrow> (Inl err, bav2)
                           | (Inr newAccessMembers, bav2) \<Rightarrow>
                               (Inr (totalInput, totalOutput,
                                     utxoOpsForTxn @
                                       [zeroUtxoOperation
                                          \<lparr>Type := OperationTypeAccessGroupMembers,
                                           PrevAccessGroupMembers := newAccessMembers\<rparr>]),
                                setAccessGroupMembers (GroupOwnerPublicKey existingEntry)
                                  (AccessGroupKeyName existingEntry) newAccessMembers
                                  blockHeight bav2))
                      | AccessGroupMemberOperationTypeRemove \<Rightarrow>
                          (Inl RuleErrorAccessGroupMemberOperationTypeNotSupported, bav1)
                      | AccessGroupMemberOperationTypeOther x \<Rightarrow>
                          (Inl RuleErrorAccessGroupMemberOperationTypeNotSupported, bav1)))))))))
      | _ \<Rightarrow> (Inl BadTxnType, bav)))"

text \<open>
  The loop of \<^verbatim>\<open>_disconnectAccessGroupMembers\<close> over the sorted members of the
  transaction and, at the same index, the sorted members of the operation record. The two
  lists have the same length when the loop starts.
\<close>

fun revertMembers ::
  "(AccessGroupMember option \<times> AccessGroupMember option) list \<Rightarrow> bytes \<Rightarrow> bytes \<Rightarrow> nat \<Rightarrow>
   'u UtxoView \<Rightarrow> error option \<times> 'u UtxoView" where
  "revertMembers [] groupOwnerPublicKey accessGroupKeyName blockHeight bav = (None, bav)"
| "revertMembers ((None, prevMember) # rest) groupOwnerPublicKey accessGroupKeyName blockHeight bav =
     (Some (Errorf ''found nil or deleted accessMember''), bav)"
| "revertMembers ((Some accessMember, prevMember) # rest) groupOwnerPublicKey accessGroupKeyName
       blockHeight bav =
     (if isDeleted_m accessMember
      then (Some (Errorf ''found nil or deleted accessMember''), bav)
      else if (case prevMember of
                 None \<Rightarrow> False
               | Some p \<Rightarrow>
                   \<not> reflect_DeepEqual (PublicKeyPointer (GroupMemberPublicKey accessMember))
                        (PublicKeyPointer (GroupMemberPublicKey p))
                   \<or> \<not> reflect_DeepEqual (GroupKeyNamePointer (GroupMemberKeyName accessMember))
                          (GroupKeyNamePointer (GroupMemberKeyName p))
                   \<or> EncryptedKey accessMember \<noteq> EncryptedKey p)
      then (Some (Errorf ''this member was already deleted''), bav)
      else let bav1 = deleteAccessGroupMember (Some accessMember)
                        (Some (NewPublicKey groupOwnerPublicKey))
                        (Some (NewGroupKeyName accessGroupKeyName)) bav;
               bav2 = (case prevMember of
                         None \<Rightarrow> bav1
                       | Some p \<Rightarrow>
                           setAccessGroupMember (Some (NewPublicKey groupOwnerPublicKey))
                             (Some (NewGroupKeyName accessGroupKeyName)) (Some p) blockHeight bav1)
           in revertMembers rest groupOwnerPublicKey accessGroupKeyName blockHeight bav2)"

definition disconnectAccessGroupMembers ::
  "'u Collaborators \<Rightarrow> OperationType \<Rightarrow> MsgDeSoTxn \<Rightarrow> bytes \<Rightarrow> UtxoOperation list \<Rightarrow> nat \<Rightarrow>
   'u UtxoView \<Rightarrow> error option \<times> 'u UtxoView" where
  "disconnectAccessGroupMembers env operationType currentTxn txnHash utxoOpsForTxn blockHeight bav =
     (if length utxoOpsForTxn = 0
      then (Some (Errorf ''Trying to revert AccessGroupMembers but with no operations''), bav)
      else let accessGroupMembersOp = last utxoOpsForTxn in
      if Type accessGroupMembersOp \<noteq> OperationTypeAccessGroupMembers
         \<or> operationType \<noteq> OperationTypeAccessGroupMembers
      then (Some (Errorf ''Trying to revert AccessGroupMembers but found other types''), bav)
      else (case TxnMeta currentTxn of
        MetaAccessGroupMembers txMeta \<Rightarrow>
          (let groupOwnerPublicKey = PublicKey currentTxn in
           case ValidateGroupPublicKeyAndName env (AccessPublicKey_a txMeta)
                  (AccessGroupKeyName_a txMeta) of
             Some err \<Rightarrow> (Some err, bav)
           | None \<Rightarrow>
               (let accessGroupMembers = sortAccessGroupMembers env (AccessGroupMembers_a txMeta);
                    prevAccessGroupMembers =
                      sortAccessGroupMembers env (PrevAccessGroupMembers accessGroupMembersOp)
                in if length accessGroupMembers \<noteq> length prevAccessGroupMembers
                   then (Some (Errorf ''found different number of members''), bav)
                   else (case revertMembers (zip accessGroupMembers prevAccessGroupMembers)
                                groupOwnerPublicKey (AccessGroupKeyName_a txMeta) blockHeight bav of
                     (Some err, bav1) \<Rightarrow> (Some err, bav1)
                   | (None, bav1) \<Rightarrow>
                       (let r = disconnectBasicTransfer env currentTxn txnHash
                                  (butlast utxoOpsForTxn) blockHeight (BasicTransferState bav1)
                        in (fst r, bav1\<lparr>BasicTransferState := snd r\<rparr>)))))
      | _ \<Rightarrow> (Some BadTxnType, bav)))"

section \<open>The create transaction\<close>

text \<open>
  \<^verbatim>\<open>existingMembers\<close>, a map from public keys to \<^verbatim>\<open>true\<close> that the source only
  tests for membership, is a set. The first loop of the pre-fork branch runs over the
  members of the existing entry, the second over the members of the transaction.
\<close>

fun checkExistingMembers ::
  "AccessGroupMember option list \<Rightarrow> PublicKey set \<Rightarrow> AccessGroupMember option list \<Rightarrow>
   error + PublicKey set \<times> AccessGroupMember option list" where
  "checkExistingMembers [] existingMembers newAccessMembers = Inr (existingMembers, newAccessMembers)"
| "checkExistingMembers (None # rest) existingMembers newAccessMembers = Inl NilPointerPanic"
| "checkExistingMembers (Some existingMember # rest) existingMembers newAccessMembers =
     (if GroupMemberPublicKey existingMember \<in> existingMembers
      then Inl RuleErrorAccessMemberAlreadyExists
      else checkExistingMembers rest
             (insert (GroupMemberPublicKey existingMember) existingMembers)
             (newAccessMembers @ [Some existingMember]))"

fun validateMembersPreFork ::
  "'u Collaborators \<Rightarrow> AccessGroupMember option list \<Rightarrow> PublicKey set \<Rightarrow>
   AccessGroupMember option list \<Rightarrow> 'u UtxoView \<Rightarrow>
   (error + AccessGroupMember option list) \<times> 'u UtxoView" where
  "validateMembersPreFork env [] existingMembers newAccessMembers bav = (Inr newAccessMembers, bav)"
| "validateMembersPreFork env (None # rest) existingMembers newAccessMembers bav =
     (Inl NilPointerPanic, bav)"
| "validateMembersPreFork env (Some accessMember # rest) existingMembers newAccessMembers bav =
     (if length (EncryptedKey accessMember) < PrivKeyBytesLen
      then (Inl RuleErrorAccessMemberEncryptedKeyTooShort, bav)
      else (case ValidateGroupPublicKeyAndName env (GroupMemberPublicKey accessMember)
                   (GroupMemberKeyName accessMember) of
        Some err \<Rightarrow> (Inl err, bav)
      | None \<Rightarrow>
          (case GetAccessGroupKeyToAccessGroupEntryMapping env
                  (NewAccessGroupKey (GroupMemberPublicKey accessMember)
                     (GroupMemberKeyName accessMember)) bav of
             (None, bav1) \<Rightarrow> (Inl RuleErrorAccessMemberKeyDoesntExist, bav1)
           | (Some memberGroupEntry, bav1) \<Rightarrow>
               if isDeleted memberGroupEntry
               then (Inl RuleErrorAccessMemberKeyDoesntExist, bav1)
               else if GroupMemberPublicKey accessMember \<in> existingMembers
               then (Inl RuleErrorAccessMemberAlreadyExists, bav1)
               else validateMembersPreFork env rest
                      (insert (GroupMemberPublicKey accessMember) existingMembers)
                      (newAccessMembers @ [Some accessMember]) bav1)))"

text \<open>The loops of the \<^verbatim>\<open>MuteMembers\<close> and \<^verbatim>\<open>UnmuteMembers\<close> cases; the
  accumulators are \<^verbatim>\<open>newMuteList\<close> and \<^verbatim>\<open>newUnmuteList\<close>.\<close>

fun validateMuteMembers ::
  "'u Collaborators \<Rightarrow> AccessGroupEntry \<Rightarrow> AccessGroupMember option list \<Rightarrow>
   AccessGroupMember list \<Rightarrow> nat \<Rightarrow> 'u UtxoView \<Rightarrow>
   (error + AccessGroupMember list) \<times> 'u UtxoView" where
  "validateMuteMembers env existingEntry [] newMuteList blockHeight bav = (Inr newMuteList, bav)"
| "validateMuteMembers env existingEntry (None # rest) newMuteList blockHeight bav =
     (Inl NilPointerPanic, bav)"
| "validateMuteMembers env existingEntry (Some newlyMutedMember # rest) newMuteList blockHeight bav =
     (if reflect_DeepEqual (ByteSlice (GroupMemberPublicKey newlyMutedMember))
           (ByteSlice (GroupOwnerPublicKey existingEntry))
      then (Inl RuleErrorAccessGroupOwnerMutingSelf, bav)
      else (case GetAccessGroupMember env (Some (GroupMemberPublicKey newlyMutedMember))
                   (Some (GroupOwnerPublicKey existingEntry))
                   (Some (AccessGroupKeyName existingEntry)) blockHeight bav of
        (None, bav1) \<Rightarrow> (Inl RuleErrorAccessMemberNotInGroup, bav1)
      | (Some member, bav1) \<Rightarrow>
          (case GetGroupMemberAttributeEntry env
                  (NewGroupEnumerationKey (GroupOwnerPublicKey existingEntry)
                     (AccessGroupKeyName existingEntry) (GroupMemberPublicKey member))
                  (AccessGroupMemberAttributeIsMuted env) bav1 of
             Inl err \<Rightarrow> (Inl err, bav1)
           | Inr attributeEntry \<Rightarrow>
               if (case attributeEntry of None \<Rightarrow> False | Some a \<Rightarrow> IsSet a)
               then (Inl RuleErrorAccessMemberAlreadyMuted, bav1)
               else validateMuteMembers env existingEntry rest
                      (newMuteList @ [newlyMutedMember]) blockHeight bav1)))"

fun validateUnmuteMembers ::
  "'u Collaborators \<Rightarrow> AccessGroupEntry \<Rightarrow> AccessGroupMember option list \<Rightarrow>
   AccessGroupMember list \<Rightarrow> nat \<Rightarrow> 'u UtxoView \<Rightarrow>
   (error + AccessGroupMember list) \<times> 'u UtxoView" where
  "validateUnmuteMembers env existingEntry [] newUnmuteList blockHeight bav =
     (Inr newUnmuteList, bav)"
| "validateUnmuteMembers env existingEntry (None # rest) newUnmuteList blockHeight bav =
     (Inl NilPointerPanic, bav)"
| "validateUnmuteMembers env existingEntry (Some newlyUnmutedMember # rest) newUnmuteList
       blockHeight bav =
     (case GetAccessGroupMember env (Some (GroupMemberPublicKey newlyUnmutedMember))
             (Some (GroupOwnerPublicKey existingEntry))
             (Some (AccessGroupKeyName existingEntry)) blockHeight bav of
        (None, bav1) \<Rightarrow> (Inl RuleErrorAccessMemberNotInGroup, bav1)
      | (Some member, bav1) \<Rightarrow>
          if reflect_DeepEqual (ByteSlice (GroupMemberPublicKey newlyUnmutedMember))
               (ByteSlice (GroupOwnerPublicKey existingEntry))
          then (Inl RuleErrorAccessGroupOwnerUnmutingSelf, bav1)
          else (case GetGroupMemberAttributeEntry env
                       (NewGroupEnumerationKey (GroupOwnerPublicKey existingEntry)
                          (AccessGroupKeyName existingEntry)
                          (GroupMemberPublicKey newlyUnmutedMember))
                       (AccessGroupMemberAttributeIsMuted env) bav1 of
             Inl err \<Rightarrow> (Inl err, bav1)
           | Inr attributeEntry \<Rightarrow>
               if (case attributeEntry of None \<Rightarrow> True | Some a \<Rightarrow> \<not> IsSet a)
               then (Inl RuleErrorAccessMemberAlreadyUnmuted, bav1)
               else validateUnmuteMembers env existingEntry rest
                      (newUnmuteList @ [newlyUnmutedMember]) blockHeight bav1))"

text \<open>The two loops that write the \<^verbatim>\<open>IsMuted\<close> attribute after the validation,
  with \<^verbatim>\<open>NewAttributeEntry(true, nil)\<close> for a muted member and
  \<^verbatim>\<open>NewAttributeEntry(false, nil)\<close> for an unmuted one.\<close>

fun setMutedAttributes ::
  "'u Collaborators \<Rightarrow> AccessGroupEntry \<Rightarrow> bool \<Rightarrow> AccessGroupMember list \<Rightarrow>
   'u UtxoView \<Rightarrow> 'u UtxoView" where
  "setMutedAttributes env accessGroupEntry muted [] bav = bav"
| "setMutedAttributes env accessGroupEntry muted (m # rest) bav =
     setMutedAttributes env accessGroupEntry muted rest
       (setGroupMemberAttributeMapping
          (NewGroupEnumerationKey (GroupOwnerPublicKey accessGroupEntry)
             (AccessGroupKeyName accessGroupEntry) (GroupMemberPublicKey m))
          (AccessGroupMemberAttributeIsMuted env) (NewAttributeEntry muted []) bav)"

text \<open>
  What the \<^verbatim>\<open>switch\<close> on the operation leaves behind: an error, the three lists, or
  the return of its \<^verbatim>\<open>default\<close> branch. That branch returns
  \<^verbatim>\<open>errors.Wrapf(err, ...)\<close> with \<^verbatim>\<open>err\<close> nil at that point, and
  \<^verbatim>\<open>Wrapf\<close> of a nil error is nil: the function returns no error, no operation and
  zero totals.
\<close>

datatype switchResult =
    SwitchError error
  | SwitchReturnsNil
  | SwitchLists "AccessGroupMember option list" "AccessGroupMember list" "AccessGroupMember list"

definition liveEntry :: "AccessGroupEntry option \<Rightarrow> AccessGroupEntry option" where
  "liveEntry existingEntry =
     (case existingEntry of
        None \<Rightarrow> None
      | Some e \<Rightarrow> if isDeleted e then None else Some e)"

definition switchAccessGroupOperation ::
  "'u Collaborators \<Rightarrow> CreateAccessGroupMetadata \<Rightarrow> nat \<Rightarrow> AccessGroupOperation \<Rightarrow> PublicKey \<Rightarrow>
   AccessGroupEntry option \<Rightarrow> 'u UtxoView \<Rightarrow> switchResult \<times> 'u UtxoView" where
  "switchAccessGroupOperation env txMeta blockHeight accessGroupOperation accessPublicKey
       existingEntry bav =
     (case accessGroupOperation of
        AccessGroupOperationAddMembers \<Rightarrow>
          (if blockHeight < DeSoAccessGroupsBlockHeight env
           then (case liveEntry existingEntry of
              Some e \<Rightarrow>
                (if length (AccessGroupMembers_c txMeta) = 0
                 then (SwitchError RuleErrorAccessKeyDoesntAddMembers, bav)
                 else (case checkExistingMembers (DEPRECATED_AccessGroupMembers e)
                              {accessPublicKey} [] of
                    Inl err \<Rightarrow> (SwitchError err, bav)
                  | Inr (existingMembers, newAccessMembers) \<Rightarrow>
                      (case validateMembersPreFork env (AccessGroupMembers_c txMeta)
                              existingMembers newAccessMembers bav of
                         (Inl err, bav1) \<Rightarrow> (SwitchError err, bav1)
                       | (Inr members, bav1) \<Rightarrow> (SwitchLists members [] [], bav1))))
            | None \<Rightarrow>
                (case validateMembersPreFork env (AccessGroupMembers_c txMeta)
                        {accessPublicKey} [] bav of
                   (Inl err, bav1) \<Rightarrow> (SwitchError err, bav1)
                 | (Inr members, bav1) \<Rightarrow> (SwitchLists members [] [], bav1)))
           else (case validateMembers env (AccessGroupMembers_c txMeta) [] bav of
              (Inl err, bav1) \<Rightarrow> (SwitchError err, bav1)
            | (Inr members, bav1) \<Rightarrow> (SwitchLists members [] [], bav1)))
      | AccessGroupOperationMuteMembers \<Rightarrow>
          (case liveEntry existingEntry of
             None \<Rightarrow> (SwitchError RuleErrorAccessGroupDoesntExist, bav)
           | Some e \<Rightarrow>
               (case validateMuteMembers env e (AccessGroupMembers_c txMeta) [] blockHeight bav of
                  (Inl err, bav1) \<Rightarrow> (SwitchError err, bav1)
                | (Inr newMuteList, bav1) \<Rightarrow> (SwitchLists [] newMuteList [], bav1)))
      | AccessGroupOperationUnmuteMembers \<Rightarrow>
          (case liveEntry existingEntry of
             None \<Rightarrow> (SwitchError RuleErrorAccessGroupDoesntExist, bav)
           | Some e \<Rightarrow>
               (case validateUnmuteMembers env e (AccessGroupMembers_c txMeta) [] blockHeight bav of
                  (Inl err, bav1) \<Rightarrow> (SwitchError err, bav1)
                | (Inr newUnmuteList, bav1) \<Rightarrow> (SwitchLists [] [] newUnmuteList, bav1)))
      | AccessGroupOperationOther x \<Rightarrow> (SwitchReturnsNil, bav))"

text \<open>
  The part of \<^verbatim>\<open>_connectAccessGroupCreate\<close> after the \<^verbatim>\<open>switch\<close>: the extra
  data, the new entry, the copy of the existing entry for the operation record, the
  attribute writes, the registry write and the operation record. When the decoding of the
  copy reports that nothing exists and gives no error, the function again returns
  \<^verbatim>\<open>Wrapf\<close> of a nil error.
\<close>

definition finishAccessGroupCreate ::
  "'u Collaborators \<Rightarrow> MsgDeSoTxn \<Rightarrow> CreateAccessGroupMetadata \<Rightarrow> nat \<Rightarrow> nat \<Rightarrow> nat \<Rightarrow>
   UtxoOperation list \<Rightarrow> AccessGroupKey \<Rightarrow> PublicKey \<Rightarrow> AccessGroupEntry option \<Rightarrow>
   AccessGroupMember option list \<Rightarrow> AccessGroupMember list \<Rightarrow> AccessGroupMember list \<Rightarrow>
   'u UtxoView \<Rightarrow> (error + nat \<times> nat \<times> UtxoOperation list) \<times> 'u UtxoView" where
  "finishAccessGroupCreate env txn txMeta blockHeight totalInput totalOutput utxoOpsForTxn
       accessGroupKey accessPublicKey existingEntry newAccessMembers newMuteList newUnmuteList bav =
     (let extraData =
            (if blockHeight \<ge> ExtraDataOnEntriesBlockHeight env
             then mergeExtraData env
                    (case liveEntry existingEntry of None \<Rightarrow> Map.empty | Some e \<Rightarrow> ExtraData e)
                    (TxnExtraData txn)
             else Map.empty);
          accessGroupEntry =
            NewAccessGroupEntry (OwnerPublicKey accessGroupKey) accessPublicKey
              (NewGroupKeyName (AccessGroupKeyName_c txMeta)) newAccessMembers extraData blockHeight;
          decoded =
            (case liveEntry existingEntry of
               None \<Rightarrow> (True, None, None)
             | Some e \<Rightarrow>
                 (case EncodeDecodeEntry env blockHeight e of
                    (exists, err, prevAccessGroupEntry) \<Rightarrow> (exists, err, Some prevAccessGroupEntry)))
      in case decoded of (exists, err, prevAccessGroupEntry) \<Rightarrow>
         if \<not> exists \<or> err \<noteq> None
         then ((case err of None \<Rightarrow> Inr (0, 0, []) | Some e \<Rightarrow> Inl e), bav)
         else (let bav1 =
                     (if blockHeight \<ge> DeSoAccessGroupsBlockHeight env
                      then setMutedAttributes env accessGroupEntry False newUnmuteList
                             (setMutedAttributes env accessGroupEntry True newMuteList bav)
                      else bav);
                   bav2 = setAccessGroupKeyToAccessGroupEntryMapping (OwnerPublicKey accessGroupKey)
                            (Some accessGroupEntry) bav1
               in (Inr (totalInput, totalOutput,
                        utxoOpsForTxn @
                          [zeroUtxoOperation
                             \<lparr>Type := OperationTypeCreateAccessGroup,
                              PrevAccessKeyEntry := prevAccessGroupEntry\<rparr>]),
                   bav2)))"

definition connectAccessGroupCreate ::
  "'u Collaborators \<Rightarrow> MsgDeSoTxn \<Rightarrow> bytes \<Rightarrow> nat \<Rightarrow> bool \<Rightarrow> 'u UtxoView \<Rightarrow>
   (error + nat \<times> nat \<times> UtxoOperation list) \<times> 'u UtxoView" where
  "connectAccessGroupCreate env txn txHash blockHeight verifySignatures bav =
     (if blockHeight < DeSoV3MessagesBlockHeight env
      then (Inl RuleErrorAccessKeyBeforeBlockHeight, bav)
      else (case TxnMeta txn of
        MetaCreateAccessGroup txMeta \<Rightarrow>
          (if EqualGroupKeyName (NewGroupKeyName (AccessGroupKeyName_c txMeta)) BaseGroupKeyName
           then (Inl RuleErrorAccessKeyNameCannotBeZeros, bav)
           else (case ValidateGroupPublicKeyAndName env (AccessPublicKey_c txMeta)
                        (AccessGroupKeyName_c txMeta) of
             Some err \<Rightarrow> (Inl err, bav)
           | None \<Rightarrow>
           (case IsByteArrayValidPublicKey env (PublicKey txn) of
             Some err \<Rightarrow> (Inl err, bav)
           | None \<Rightarrow>
           (if reflect_DeepEqual (ByteSlice (AccessPublicKey_c txMeta)) (ByteSlice (PublicKey txn))
            then (Inl RuleErrorAccessPublicKeyCannotBeOwnerKey, bav)
            else (case connectBasicTransfer env txn txHash blockHeight verifySignatures
                         (BasicTransferState bav) of
              (Inl err, u) \<Rightarrow> (Inl err, bav\<lparr>BasicTransferState := u\<rparr>)
            | (Inr (totalInput, totalOutput, utxoOpsForTxn), u) \<Rightarrow>
                (let (accessGroupKey, accessPublicKey) =
                       transactionGroupKey env (PublicKey txn) (AccessPublicKey_c txMeta)
                         (AccessGroupKeyName_c txMeta)
                 in case GetAccessGroupKeyToAccessGroupEntryMapping env accessGroupKey
                           (bav\<lparr>BasicTransferState := u\<rparr>) of
                   (existingEntry, bav1) \<Rightarrow>
                     (case (if blockHeight < DeSoAccessGroupsBlockHeight env
                            then Inr AccessGroupOperationAddMembers
                            else GetAccessGroupOperation env txn) of
                        Inl err \<Rightarrow> (Inl err, bav1)
                      | Inr accessGroupOperation \<Rightarrow>
                          (if (case liveEntry existingEntry of
                                 None \<Rightarrow> False
                               | Some e \<Rightarrow>
                                   \<not> reflect_DeepEqual (ByteSlice (AccessPublicKey e))
                                        (ByteSlice accessPublicKey))
                           then (Inl RuleErrorAccessPublicKeyCannotBeDifferent, bav1)
                           else (case switchAccessGroupOperation env txMeta blockHeight
                                        accessGroupOperation accessPublicKey existingEntry bav1 of
                              (SwitchError err, bav2) \<Rightarrow> (Inl err, bav2)
                            | (SwitchReturnsNil, bav2) \<Rightarrow> (Inr (0, 0, []), bav2)
                            | (SwitchLists newAccessMembers newMuteList newUnmuteList, bav2) \<Rightarrow>
                                finishAccessGroupCreate env txn txMeta blockHeight totalInput
                                  totalOutput utxoOpsForTxn accessGroupKey accessPublicKey
                                  existingEntry newAccessMembers newMuteList newUnmuteList
                                  bav2)))))))))
      | _ \<Rightarrow> (Inl BadTxnType, bav)))"

section \<open>Keying of the registry\<close>

text \<open>
  \<^verbatim>\<open>_setAccessGroupKeyToAccessGroupEntryMapping\<close>, the only writer of the registry
  overlay, stores an entry under the owner it is given and the entry's own name. So in the
  overlay an entry found under a key carries the name of that key; the same is asked of
  the durable store, which is keyed by owner and name.
\<close>

definition overlayKeyedByName :: "'u UtxoView \<Rightarrow> bool" where
  "overlayKeyedByName bav \<longleftrightarrow>
     (\<forall>k e. AccessGroupKeyToAccessGroupEntry bav k = Some e \<longrightarrow>
            AccessGroupKeyName e = GroupKeyName k)"

definition storeKeyedByName :: "'u Collaborators \<Rightarrow> bool" where
  "storeKeyedByName env \<longleftrightarrow>
     (\<forall>k e. DBGetAccessGroupEntry env k = Some e \<longrightarrow> AccessGroupKeyName e = GroupKeyName k)"

section \<open>Assumptions on the collaborators and keying of the membership index\<close>

text \<open>
  The copy of an existing entry through its encoding never reports a missing entry without
  an error (the encoding of an entry that is there starts with the existence flag set).
\<close>

definition copyReportsFailure :: "'u Collaborators \<Rightarrow> bool" where
  "copyReportsFailure env \<longleftrightarrow>
     (\<forall>blockHeight e. fst (EncodeDecodeEntry env blockHeight e)
                      \<or> fst (snd (EncodeDecodeEntry env blockHeight e)) \<noteq> None)"

text \<open>
  \<^verbatim>\<open>_setGroupMembershipKeyToAccessGroupMemberMapping\<close>, the only writer of the
  membership overlay, stores a member under the member's own public key; the store is
  asked to return, for a member public key, a record of that member.
\<close>

definition storeMembersKeyed :: "'u Collaborators \<Rightarrow> bool" where
  "storeMembersKeyed env \<longleftrightarrow>
     (\<forall>m opk n x. DBGetMemberFromMembershipIndex env m opk n = Some x \<longrightarrow>
                  GroupMemberPublicKey x = m)"

definition membershipKeyed :: "'u UtxoView \<Rightarrow> bool" where
  "membershipKeyed bav \<longleftrightarrow>
     (\<forall>k x. GroupMembershipKeyToAccessGroupMember bav k = Some x \<longrightarrow>
            GroupMemberPublicKey x = GroupMemberPublicKey_mk k)"

text \<open>
  What the \<^verbatim>\<open>MuteMembers\<close> loop tests of a target, read on a view: the target is not
  the owner of the existing entry, the membership getter finds the target in the entry's
  group, and the \<^verbatim>\<open>IsMuted\<close> attribute of the target in that group is read without
  an error and is not set.
\<close>

definition muteTargetAccepted ::
  "'u Collaborators \<Rightarrow> AccessGroupEntry \<Rightarrow> nat \<Rightarrow> 'u UtxoView \<Rightarrow> AccessGroupMember \<Rightarrow> bool" where
  "muteTargetAccepted env e blockHeight bav m \<longleftrightarrow>
     GroupMemberPublicKey m \<noteq> GroupOwnerPublicKey e
     \<and> fst (GetAccessGroupMember env (Some (GroupMemberPublicKey m)) (Some (GroupOwnerPublicKey e))
              (Some (AccessGroupKeyName e)) blockHeight bav) \<noteq> None
     \<and> (\<exists>a. GetGroupMemberAttributeEntry env
                (NewGroupEnumerationKey (GroupOwnerPublicKey e) (AccessGroupKeyName e)
                   (GroupMemberPublicKey m))
                (AccessGroupMemberAttributeIsMuted env) bav = Inr a
              \<and> \<not> (case a of None \<Rightarrow> False | Some x \<Rightarrow> IsSet x))"

(*DEFS-END*)

section \<open>Example data\<close>

text \<open>
  Concrete keys, names and collaborators on which the theorems below are run. The
  example store is empty unless a theorem says otherwise, the example basic transfer
  accepts every transaction and reports no input, no output and no operation, and the
  example sort leaves a list as it is (every sort does so on a list of one member).
\<close>

definition alice :: PublicKey where
  "alice = 2 # replicate 32 1"

definition bob :: PublicKey where
  "bob = 2 # replicate 32 2"

definition carol :: PublicKey where
  "carol = 2 # replicate 32 3"

definition accessKeyP :: PublicKey where
  "accessKeyP = 3 # replicate 32 7"

definition basePointG :: PublicKey where
  "basePointG = 2 # replicate 32 9"

definition room :: GroupKeyName where
  "room = NewGroupKeyName [114, 111, 111, 109]"

definition exampleCollaborators :: "unit Collaborators" where
  "exampleCollaborators =
     \<lparr>DeSoV3MessagesBlockHeight = 10,
      DeSoAccessGroupsBlockHeight = 20,
      ExtraDataOnEntriesBlockHeight = 5,
      DBGetAccessGroupEntry = (\<lambda>k. None),
      DBGetMemberFromMembershipIndex = (\<lambda>m opk n. None),
      DBGetAttributeEntryInGroupMemberAttributesIndex = (\<lambda>opk n m t. Inr None),
      DBGetAttributeEntryInGroupEntryAttributesIndex = (\<lambda>opk n t. Inr None),
      IsByteArrayValidPublicKey = (\<lambda>pk. if length pk = 33 then None else Some (CollaboratorError 1)),
      connectBasicTransfer = (\<lambda>txn txHash blockHeight verifySignatures u. (Inr (0, 0, []), u)),
      disconnectBasicTransfer = (\<lambda>txn txHash ops blockHeight u. (None, u)),
      GetAccessGroupOperation = (\<lambda>txn. Inr AccessGroupOperationAddMembers),
      mergeExtraData = (\<lambda>a b. a ++ b),
      GetS256BasePointCompressed = basePointG,
      DeriveUnencryptedAccessPublicKey = (\<lambda>n. 3 # n),
      EncodeDecodeEntry = (\<lambda>blockHeight e. (True, None, e)),
      sortAccessGroupMembers = (\<lambda>ms. ms),
      AccessGroupMemberAttributeIsMuted = 1\<rparr>"

definition emptyView :: "unit UtxoView" where
  "emptyView =
     \<lparr>AccessGroupKeyToAccessGroupEntry = Map.empty,
      GroupMembershipKeyToAccessGroupMember = Map.empty,
      GroupMemberAttributes = Map.empty,
      GroupEntryAttributes = Map.empty,
      BasicTransferState = ()\<rparr>"

definition roomEntry :: AccessGroupEntry where
  "roomEntry = NewAccessGroupEntry alice accessKeyP room [] Map.empty 25"




definition roomView :: "unit UtxoView" where
  "roomView = setAccessGroupKeyToAccessGroupEntryMapping alice (Some roomEntry) emptyView"


definition bobMember :: AccessGroupMember where
  "bobMember =
     \<lparr>GroupMemberPublicKey = bob, GroupMemberKeyName = BaseGroupKeyName,
      EncryptedKey = replicate 32 5, isDeleted_m = False\<rparr>"

definition roomViewWithBob :: "unit UtxoView" where
  "roomViewWithBob = setAccessGroupMember (Some alice) (Some room) (Some bobMember) 25 roomView"

definition bobInRoom :: GroupEnumerationKey where
  "bobInRoom = NewGroupEnumerationKey alice room bob"

definition hello :: bytes where
  "hello = [104, 101, 108, 108, 111]"


definition roomName :: bytes where
  "roomName = [114, 111, 111, 109]"

definition defaultKeyName :: bytes where
  "defaultKeyName = [100, 101, 102, 97, 117, 108, 116, 45, 107, 101, 121]"

text \<open>An attributes transaction of Alice, the owner inside the holder key, on the
  attribute 7 of Bob in her group.\<close>

definition attributeTxn :: "AccessGroupAttributeOperationType \<Rightarrow> MsgDeSoTxn" where
  "attributeTxn operation =
     \<lparr>TxnMeta = MetaAccessGroupAttributes
        \<lparr>AccessGroupAttributeHolder_t = AccessGroupAttributeHolderMember,
         AttributeHolderKey_t = HolderGroupEnumerationKey bobInRoom,
         AccessGroupAttributeOperationType_t = operation,
         AttributeType_t = 7,
         AttributeValue_t = hello\<rparr>,
      PublicKey = alice,
      TxnExtraData = Map.empty\<rparr>"



text \<open>A members transaction of Alice that adds Bob to her group.\<close>

definition addMembersTxn :: MsgDeSoTxn where
  "addMembersTxn =
     \<lparr>TxnMeta = MetaAccessGroupMembers
        \<lparr>AccessPublicKey_a = accessKeyP,
         AccessGroupKeyName_a = roomName,
         AccessGroupMembers_a = [Some bobMember],
         AccessGroupMemberOperationType_a = AccessGroupMemberOperationTypeAdd\<rparr>,
      PublicKey = alice,
      TxnExtraData = Map.empty\<rparr>"

definition addedMembersRecord :: UtxoOperation where
  "addedMembersRecord =
     zeroUtxoOperation\<lparr>Type := OperationTypeAccessGroupMembers,
                        PrevAccessGroupMembers := [Some bobMember]\<rparr>"

text \<open>A create transaction of Alice with a name, an owner signature and members.\<close>

definition createTxn :: "bytes \<Rightarrow> bytes \<Rightarrow> AccessGroupMember option list \<Rightarrow> MsgDeSoTxn" where
  "createTxn name signature members =
     \<lparr>TxnMeta = MetaCreateAccessGroup
        \<lparr>AccessPublicKey_c = accessKeyP,
         AccessGroupKeyName_c = name,
         GroupOwnerSignature_c = signature,
         AccessGroupMembers_c = members\<rparr>,
      PublicKey = alice,
      TxnExtraData = Map.empty\<rparr>"

definition createRecord :: "AccessGroupEntry option \<Rightarrow> UtxoOperation" where
  "createRecord prevEntry =
     zeroUtxoOperation\<lparr>Type := OperationTypeCreateAccessGroup, PrevAccessKeyEntry := prevEntry\<rparr>"

section \<open>Facts about the example data\<close>

lemma alice_neq_bob: "alice \<noteq> bob"
  by (simp add: alice_def bob_def)

lemma room_not_base: "room \<noteq> BaseGroupKeyName"
  by code_simp


lemma NewGroupKeyName_fixed:
  "length n = MaxAccessKeyNameCharacters \<Longrightarrow> NewGroupKeyName n = n"
  by (simp add: NewGroupKeyName_def)

section \<open>Getters called with a nil parameter\<close>

text \<open>
  Claim C10. When the member public key, the group owner public key or the group key name
  passed to \<^verbatim>\<open>GetAccessGroupMember\<close> or to \<^verbatim>\<open>GetAccessGroupEntry\<close> is nil, the
  getter returns nil and does not fail. The result is the same for every view and every
  store, and the view is returned as it was given: neither the overlay nor the store is
  consulted.
\<close>

theorem C10_nil_parameter_returns_nil:
  assumes "memberPublicKey = None \<or> groupOwnerPublicKey = None \<or> groupKeyName = None"
  shows "GetAccessGroupMember env memberPublicKey groupOwnerPublicKey groupKeyName blockHeight bav
           = (None, bav)
         \<and> GetAccessGroupEntry env memberPublicKey groupOwnerPublicKey groupKeyName blockHeight bav
           = (None, bav)"
  using assms
  by (auto simp: GetAccessGroupMember_def GetAccessGroupEntry_def split: option.splits)

theorem C10_nil_parameter_witness:
  "((Some bob = None \<or> (None :: PublicKey option) = None \<or> Some room = None)
    \<and> GetAccessGroupMember exampleCollaborators (Some bob) None (Some room) 25 emptyView
        = (None, emptyView)
    \<and> GetAccessGroupEntry exampleCollaborators (Some bob) None (Some room) 25 emptyView
        = (None, emptyView))"
  using C10_nil_parameter_returns_nil
          [of "Some bob" None "Some room" exampleCollaborators 25 emptyView]
  by simp

section \<open>Reading the registry\<close>







lemma overlayKeyedByName_set:
  "overlayKeyedByName bav \<Longrightarrow>
   overlayKeyedByName (setAccessGroupKeyToAccessGroupEntryMapping ownerPublicKey e bav)"
  by (auto simp: overlayKeyedByName_def setAccessGroupKeyToAccessGroupEntryMapping_def
           split: option.splits)

lemma overlayKeyedByName_delete:
  "overlayKeyedByName bav \<Longrightarrow>
   overlayKeyedByName (deleteAccessGroupKeyToAccessGroupEntryMapping ownerPublicKey e bav)"
  by (simp add: deleteAccessGroupKeyToAccessGroupEntryMapping_def overlayKeyedByName_set)

lemma overlayKeyedByName_get:
  "overlayKeyedByName bav \<Longrightarrow> storeKeyedByName env \<Longrightarrow>
   overlayKeyedByName (snd (GetAccessGroupKeyToAccessGroupEntryMapping env k bav))"
  by (auto simp: GetAccessGroupKeyToAccessGroupEntryMapping_def overlayKeyedByName_set
           split: option.splits)






section \<open>Evaluation on the example data\<close>

lemma length_base: "length BaseGroupKeyName = 32"
  by (simp add: BaseGroupKeyName_def MaxAccessKeyNameCharacters_def)

lemma base_nonempty: "BaseGroupKeyName \<noteq> []"
  using length_base by auto

lemma NewGroupKeyName_roomName: "NewGroupKeyName roomName = room"
  by (simp add: room_def roomName_def)

lemma length_roomName: "length roomName = 4"
  by (simp add: roomName_def)

lemma NewGroupKeyName_base: "NewGroupKeyName BaseGroupKeyName = BaseGroupKeyName"
  by (simp add: NewGroupKeyName_fixed BaseGroupKeyName_def)

lemma default_not_base: "NewGroupKeyName defaultKeyName \<noteq> BaseGroupKeyName"
  by code_simp

lemma length_default: "length defaultKeyName = 11"
  by (simp add: defaultKeyName_def)

lemma key_lengths: "length alice = 33" "length bob = 33" "length accessKeyP = 33"
  by (simp_all add: alice_def bob_def accessKeyP_def)

lemma keys_differ:
  "accessKeyP \<noteq> alice" "accessKeyP \<noteq> basePointG" "alice \<noteq> basePointG" "bob \<noteq> alice"
  by (simp_all add: alice_def bob_def accessKeyP_def basePointG_def)

lemmas connect_example_simps =
  exampleCollaborators_def EqualGroupKeyName_def ValidateGroupPublicKeyAndName_def key_lengths
  MinAccessKeyNameCharacters_def MaxAccessKeyNameCharacters_def PrivKeyBytesLen_def
  transactionGroupKey_def NewAccessGroupKey_def NewPublicKey_def
  GetAccessGroupKeyToAccessGroupEntryMapping_def baseAccessGroupEntry_def
  NewGroupKeyName_roomName NewGroupKeyName_base length_roomName length_base base_nonempty
  setAccessGroupKeyToAccessGroupEntryMapping_def NewAccessGroupEntry_def
  roomView_def roomEntry_def emptyView_def bobMember_def Let_def

section \<open>The owner test of the attributes transaction\<close>

lemma connectAccessGroupAttributes_never_accepts:
  "\<exists>e. fst (connectAccessGroupAttributes env txn txHash blockHeight verifySignatures bav) = Inl e"
  by (auto simp: connectAccessGroupAttributes_def Let_def
      split: TxnMeta.splits prod.splits sum.splits AttributeHolderKey.splits)

text \<open>
  Claim C1, on the code. Alice owns the group \<open>room\<close> and sends an attributes
  transaction whose holder key names her as the group owner: the public key of the
  transaction equals the owner inside the holder key. The connect still fails with
  \<^verbatim>\<open>RuleErrorAccessGroupAttributesOperationDenied\<close> and writes no attribute: the owner
  test compares a pointer to a key array with a byte slice, which are never deeply equal.
\<close>

theorem C1_owner_is_denied:
  "GroupOwnerPublicKey_ek bobInRoom = PublicKey (attributeTxn AccessGroupAttributeOperationTypeAdd)
   \<and> connectAccessGroupAttributes exampleCollaborators
        (attributeTxn AccessGroupAttributeOperationTypeAdd) [] 25 True roomViewWithBob
       = (Inl RuleErrorAccessGroupAttributesOperationDenied, roomViewWithBob)"
  by (simp add: connectAccessGroupAttributes_def exampleCollaborators_def attributeTxn_def
      bobInRoom_def NewGroupEnumerationKey_def)

section \<open>Disconnect of the attributes transaction\<close>



section \<open>Connect and disconnect of the members transaction\<close>

lemma connect_adds_bob:
  "connectAccessGroupMembers exampleCollaborators addMembersTxn [] 25 True roomView
     = (Inr (0, 0, [addedMembersRecord]), roomViewWithBob)"
  using room_not_base keys_differ
  by (simp add: connectAccessGroupMembers_def addMembersTxn_def connect_example_simps
      addedMembersRecord_def roomViewWithBob_def)

lemma disconnect_keeps_bob:
  "disconnectAccessGroupMembers exampleCollaborators OperationTypeAccessGroupMembers addMembersTxn []
      [addedMembersRecord] 25 roomViewWithBob = (None, roomViewWithBob)"
  using room_not_base keys_differ
  by (simp add: disconnectAccessGroupMembers_def addMembersTxn_def connect_example_simps
      addedMembersRecord_def zeroUtxoOperation_def deleteAccessGroupMember_def
      setAccessGroupMember_def setGroupMembershipKeyToAccessGroupMemberMapping_def
      roomViewWithBob_def)

lemma bob_is_found:
  "GetAccessGroupMember exampleCollaborators (Some bob) (Some alice) (Some room) 25 roomViewWithBob
    = (Some bobMember, roomViewWithBob)"
  by (simp add: GetAccessGroupMember_def roomViewWithBob_def setAccessGroupMember_def
      setGroupMembershipKeyToAccessGroupMemberMapping_def bobMember_def)

text \<open>
  Claim C2, on the code. Alice adds Bob to her group \<open>room\<close> with a members
  transaction; the connect succeeds, writes Bob to the membership index and records the
  added members in \<^verbatim>\<open>PrevAccessGroupMembers\<close>. The disconnect on that record succeeds
  as well, and afterwards the membership getter still returns Bob, not tombstoned: for
  each member the disconnect writes a tombstone and then, because the record holds the
  added member at that index, writes the member back.
\<close>

theorem C2_added_member_survives_disconnect:
  "(case connectAccessGroupMembers exampleCollaborators addMembersTxn [] 25 True roomView of
      (Inr (totalInput, totalOutput, utxoOps), bav1) \<Rightarrow>
        fst (GetAccessGroupMember exampleCollaborators (Some bob) (Some alice) (Some room) 25 bav1)
          = Some bobMember
        \<and> (case disconnectAccessGroupMembers exampleCollaborators OperationTypeAccessGroupMembers
                   addMembersTxn [] utxoOps 25 bav1 of
             (None, bav2) \<Rightarrow>
               fst (GetAccessGroupMember exampleCollaborators (Some bob) (Some alice) (Some room)
                      25 bav2) = Some bobMember
               \<and> \<not> isDeleted_m bobMember
           | (Some err, bav2) \<Rightarrow> False)
    | (Inl err, bav1) \<Rightarrow> False)"
  by (simp add: connect_adds_bob disconnect_keeps_bob bob_is_found) (simp add: bobMember_def)

theorem C2_added_member_survives_disconnect_witness:
  "fst (GetAccessGroupMember exampleCollaborators (Some bob) (Some alice) (Some room) 25
          (snd (disconnectAccessGroupMembers exampleCollaborators OperationTypeAccessGroupMembers
                  addMembersTxn [] [addedMembersRecord] 25
                  (snd (connectAccessGroupMembers exampleCollaborators addMembersTxn [] 25 True
                          roomView)))))
     = Some bobMember"
  using C2_added_member_survives_disconnect
  by (simp add: connect_adds_bob disconnect_keeps_bob)

section \<open>Adding a member twice\<close>

lemma duplicate_members_transaction:
  "connectAccessGroupMembers exampleCollaborators addMembersTxn [] 25 True roomViewWithBob
     = (Inr (0, 0, [addedMembersRecord]), roomViewWithBob)"
  using room_not_base keys_differ
  by (simp add: connectAccessGroupMembers_def addMembersTxn_def connect_example_simps
      addedMembersRecord_def roomViewWithBob_def setAccessGroupMember_def
      setGroupMembershipKeyToAccessGroupMemberMapping_def)

lemma duplicate_create_transaction:
  "connectAccessGroupCreate exampleCollaborators (createTxn roomName [] [Some bobMember]) []
        25 True roomViewWithBob
       = (Inr (0, 0, [createRecord (Some roomEntry)]),
          setAccessGroupKeyToAccessGroupEntryMapping alice
            (Some (NewAccessGroupEntry alice accessKeyP room [Some bobMember] Map.empty 25))
            roomViewWithBob)"
  using room_not_base keys_differ
  by (simp add: connectAccessGroupCreate_def createTxn_def connect_example_simps createRecord_def
      roomViewWithBob_def setAccessGroupMember_def
      setGroupMembershipKeyToAccessGroupMemberMapping_def liveEntry_def
      switchAccessGroupOperation_def finishAccessGroupCreate_def)

text \<open>
  Claim C6, on the code. Bob is already a member of Alice's group \<open>room\<close> in the
  membership index. A members transaction that adds Bob again is accepted, and so is a
  create transaction with the \<^verbatim>\<open>AddMembers\<close> operation at a height past the
  access-groups fork: neither runs the duplicate test that the pre-fork branch of the
  create transaction has.
\<close>

theorem C6_duplicate_member_is_accepted:
  "fst (GetAccessGroupMember exampleCollaborators (Some bob) (Some alice) (Some room) 25
          roomViewWithBob) = Some bobMember
   \<and> connectAccessGroupMembers exampleCollaborators addMembersTxn [] 25 True roomViewWithBob
       = (Inr (0, 0, [addedMembersRecord]), roomViewWithBob)
   \<and> connectAccessGroupCreate exampleCollaborators (createTxn roomName [] [Some bobMember]) []
        25 True roomViewWithBob
       = (Inr (0, 0, [createRecord (Some roomEntry)]),
          setAccessGroupKeyToAccessGroupEntryMapping alice
            (Some (NewAccessGroupEntry alice accessKeyP room [Some bobMember] Map.empty 25))
            roomViewWithBob)"
  by (simp add: bob_is_found duplicate_members_transaction duplicate_create_transaction)

section \<open>The owner signature of the default key\<close>

text \<open>
  Claim C4, on the code. At height 15, after the V3 messages height 10 and before the
  access-groups fork height 20, Alice's create transaction for the name \<open>default-key\<close>
  is accepted whatever its owner signature holds: \<^verbatim>\<open>_connectAccessGroupCreate\<close> never
  reads the signature, its verification being commented out.
\<close>

theorem C4_default_key_accepted_for_any_signature:
  "connectAccessGroupCreate exampleCollaborators (createTxn defaultKeyName signature []) [] 15 True
     emptyView
     = (Inr (0, 0, [createRecord None]),
        setAccessGroupKeyToAccessGroupEntryMapping alice
          (Some (NewAccessGroupEntry alice accessKeyP (NewGroupKeyName defaultKeyName) [] Map.empty
                   15))
          emptyView)"
  using default_not_base keys_differ
  by (simp add: connectAccessGroupCreate_def createTxn_def connect_example_simps length_default
      liveEntry_def switchAccessGroupOperation_def finishAccessGroupCreate_def createRecord_def)

section \<open>The create transaction: members and muting\<close>

lemma get_registry_frame:
  "GroupMembershipKeyToAccessGroupMember (snd (GetAccessGroupKeyToAccessGroupEntryMapping env k bav))
     = GroupMembershipKeyToAccessGroupMember bav"
  "GroupMemberAttributes (snd (GetAccessGroupKeyToAccessGroupEntryMapping env k bav))
     = GroupMemberAttributes bav"
  by (simp_all add: GetAccessGroupKeyToAccessGroupEntryMapping_def
      setAccessGroupKeyToAccessGroupEntryMapping_def split: option.splits)

lemma validateMembers_frame:
  "GroupMembershipKeyToAccessGroupMember (snd (validateMembers env ms acc bav))
     = GroupMembershipKeyToAccessGroupMember bav"
proof (induction env ms acc bav rule: validateMembers.induct)
  case (3 env accessMember rest newAccessMembers bav)
  let ?k = "NewAccessGroupKey (GroupMemberPublicKey accessMember) (GroupMemberKeyName accessMember)"
  obtain r bav1 where g: "GetAccessGroupKeyToAccessGroupEntryMapping env ?k bav = (r, bav1)"
    by (cases "GetAccessGroupKeyToAccessGroupEntryMapping env ?k bav")
  have f: "GroupMembershipKeyToAccessGroupMember bav1 = GroupMembershipKeyToAccessGroupMember bav"
    using get_registry_frame(1)[of env ?k bav] g by simp
  show ?case using 3 g f
    by (auto split: option.splits)
qed simp_all

lemma validateMembers_result:
  "validateMembers env ms acc bav = (Inr r, bav') \<Longrightarrow> r = acc @ ms"
proof (induction env ms acc bav rule: validateMembers.induct)
  case (3 env accessMember rest newAccessMembers bav)
  then show ?case
    by (auto split: if_splits option.splits prod.splits)
qed simp_all

lemma setRegistry_frame:
  "GroupMembershipKeyToAccessGroupMember (setAccessGroupKeyToAccessGroupEntryMapping o' e bav)
     = GroupMembershipKeyToAccessGroupMember bav"
  "GroupMemberAttributes (setAccessGroupKeyToAccessGroupEntryMapping o' e bav)
     = GroupMemberAttributes bav"
  by (simp_all add: setAccessGroupKeyToAccessGroupEntryMapping_def split: option.splits)

lemma finish_success:
  assumes "copyReportsFailure env"
    and "finishAccessGroupCreate env txn txMeta blockHeight totalInput totalOutput utxoOpsForTxn
           accessGroupKey accessPublicKey existingEntry newAccessMembers newMuteList newUnmuteList bav
         = (Inr res, bav')"
  shows "\<exists>extraData prevEntry.
           bav' = setAccessGroupKeyToAccessGroupEntryMapping (OwnerPublicKey accessGroupKey)
                    (Some (NewAccessGroupEntry (OwnerPublicKey accessGroupKey) accessPublicKey
                             (NewGroupKeyName (AccessGroupKeyName_c txMeta)) newAccessMembers
                             extraData blockHeight))
                    (if blockHeight \<ge> DeSoAccessGroupsBlockHeight env
                     then setMutedAttributes env
                            (NewAccessGroupEntry (OwnerPublicKey accessGroupKey) accessPublicKey
                               (NewGroupKeyName (AccessGroupKeyName_c txMeta)) newAccessMembers
                               extraData blockHeight)
                            False newUnmuteList
                            (setMutedAttributes env
                               (NewAccessGroupEntry (OwnerPublicKey accessGroupKey) accessPublicKey
                                  (NewGroupKeyName (AccessGroupKeyName_c txMeta)) newAccessMembers
                                  extraData blockHeight)
                               True newMuteList bav)
                     else bav)
           \<and> res = (totalInput, totalOutput,
                     utxoOpsForTxn @
                       [zeroUtxoOperation\<lparr>Type := OperationTypeCreateAccessGroup,
                                          PrevAccessKeyEntry := prevEntry\<rparr>])"
proof (cases "liveEntry existingEntry")
  case None
  with assms(2) show ?thesis
    by (auto simp: finishAccessGroupCreate_def Let_def split: if_splits)
next
  case (Some e)
  obtain ex err cp where d: "EncodeDecodeEntry env blockHeight e = (ex, err, cp)"
    by (cases "EncodeDecodeEntry env blockHeight e") auto
  from assms(1) d have "ex \<or> err \<noteq> None"
    unfolding copyReportsFailure_def by (metis fst_conv snd_conv)
  with assms(2) Some d show ?thesis
    by (auto simp: finishAccessGroupCreate_def Let_def split: if_splits option.splits)
qed

lemma connect_create_success:
  assumes "connectAccessGroupCreate env txn txHash blockHeight verifySignatures bav = (Inr res, bav')"
    and "TxnMeta txn = MetaCreateAccessGroup txMeta"
  shows "\<exists>totalInput totalOutput utxoOpsForTxn u accessGroupOperation existingEntry bav1 sw bav2.
           connectBasicTransfer env txn txHash blockHeight verifySignatures (BasicTransferState bav)
             = (Inr (totalInput, totalOutput, utxoOpsForTxn), u)
         \<and> (if blockHeight < DeSoAccessGroupsBlockHeight env
             then Inr AccessGroupOperationAddMembers
             else GetAccessGroupOperation env txn) = Inr accessGroupOperation
         \<and> GetAccessGroupKeyToAccessGroupEntryMapping env
              (fst (transactionGroupKey env (PublicKey txn) (AccessPublicKey_c txMeta)
                      (AccessGroupKeyName_c txMeta)))
              (bav\<lparr>BasicTransferState := u\<rparr>) = (existingEntry, bav1)
         \<and> switchAccessGroupOperation env txMeta blockHeight accessGroupOperation
              (snd (transactionGroupKey env (PublicKey txn) (AccessPublicKey_c txMeta)
                      (AccessGroupKeyName_c txMeta)))
              existingEntry bav1 = (sw, bav2)
         \<and> (case sw of
               SwitchError err \<Rightarrow> False
             | SwitchReturnsNil \<Rightarrow> res = (0, 0, []) \<and> bav' = bav2
             | SwitchLists newAccessMembers newMuteList newUnmuteList \<Rightarrow>
                 finishAccessGroupCreate env txn txMeta blockHeight totalInput totalOutput
                   utxoOpsForTxn
                   (fst (transactionGroupKey env (PublicKey txn) (AccessPublicKey_c txMeta)
                           (AccessGroupKeyName_c txMeta)))
                   (snd (transactionGroupKey env (PublicKey txn) (AccessPublicKey_c txMeta)
                           (AccessGroupKeyName_c txMeta)))
                   existingEntry newAccessMembers newMuteList newUnmuteList bav2
                 = (Inr res, bav'))"
  using assms
  by (simp add: connectAccessGroupCreate_def Let_def
      split: if_splits option.splits prod.splits sum.splits switchResult.splits)

lemma transactionGroupKey_key:
  "fst (transactionGroupKey env pk apk name)
     = \<lparr>OwnerPublicKey = OwnerPublicKey (fst (transactionGroupKey env pk apk name)),
        GroupKeyName = NewGroupKeyName name\<rparr>"
  by (simp add: transactionGroupKey_def NewAccessGroupKey_def)

lemma switch_add_members_post_fork:
  assumes "DeSoAccessGroupsBlockHeight env \<le> blockHeight"
    and "switchAccessGroupOperation env txMeta blockHeight AccessGroupOperationAddMembers
           accessPublicKey existingEntry bav = (sw, bav2)"
  shows "GroupMembershipKeyToAccessGroupMember bav2 = GroupMembershipKeyToAccessGroupMember bav
         \<and> (sw = SwitchLists (AccessGroupMembers_c txMeta) [] [] \<or> (\<exists>err. sw = SwitchError err))"
proof -
  obtain r b where v: "validateMembers env (AccessGroupMembers_c txMeta) [] bav = (r, b)"
    by (cases "validateMembers env (AccessGroupMembers_c txMeta) [] bav")
  have "GroupMembershipKeyToAccessGroupMember b = GroupMembershipKeyToAccessGroupMember bav"
    using validateMembers_frame[of env "AccessGroupMembers_c txMeta" "[]" bav] v by simp
  moreover have "r = Inr x \<Longrightarrow> x = AccessGroupMembers_c txMeta" for x
    using validateMembers_result[of env "AccessGroupMembers_c txMeta" "[]" bav x b] v by simp
  ultimately show ?thesis using assms v
    by (cases r) (auto simp: switchAccessGroupOperation_def)
qed

text \<open>
  Claim C5, as amended. A create transaction with the \<^verbatim>\<open>AddMembers\<close> operation that
  is accepted at a height at or above the access-groups fork leaves the membership index
  of the view as it was, and the registry then holds, under the group key of the
  transaction, an entry whose member list is the list of members of the transaction.
\<close>

theorem C5_members_stay_in_the_entry:
  assumes "DeSoAccessGroupsBlockHeight env \<le> blockHeight"
    and "TxnMeta txn = MetaCreateAccessGroup txMeta"
    and "GetAccessGroupOperation env txn = Inr AccessGroupOperationAddMembers"
    and "copyReportsFailure env"
    and "connectAccessGroupCreate env txn txHash blockHeight verifySignatures bav
           = (Inr (totalInput, totalOutput, utxoOps), bav')"
  shows "GroupMembershipKeyToAccessGroupMember bav' = GroupMembershipKeyToAccessGroupMember bav
         \<and> (\<exists>e. AccessGroupKeyToAccessGroupEntry bav'
                   (fst (transactionGroupKey env (PublicKey txn) (AccessPublicKey_c txMeta)
                           (AccessGroupKeyName_c txMeta))) = Some e
                \<and> DEPRECATED_AccessGroupMembers e = AccessGroupMembers_c txMeta)"
proof -
  let ?key = "fst (transactionGroupKey env (PublicKey txn) (AccessPublicKey_c txMeta)
                     (AccessGroupKeyName_c txMeta))"
  let ?apk = "snd (transactionGroupKey env (PublicKey txn) (AccessPublicKey_c txMeta)
                     (AccessGroupKeyName_c txMeta))"
  from connect_create_success[OF assms(5) assms(2)]
  obtain ti0 to0 ops0 u op existingEntry bav1 sw bav2 where
    op: "(if blockHeight < DeSoAccessGroupsBlockHeight env
          then Inr AccessGroupOperationAddMembers
          else GetAccessGroupOperation env txn) = Inr op"
    and get: "GetAccessGroupKeyToAccessGroupEntryMapping env ?key (bav\<lparr>BasicTransferState := u\<rparr>)
               = (existingEntry, bav1)"
    and sw: "switchAccessGroupOperation env txMeta blockHeight op ?apk existingEntry bav1 = (sw, bav2)"
    and fin: "(case sw of
               SwitchError err \<Rightarrow> False
             | SwitchReturnsNil \<Rightarrow> (totalInput, totalOutput, utxoOps) = (0, 0, []) \<and> bav' = bav2
             | SwitchLists newAccessMembers newMuteList newUnmuteList \<Rightarrow>
                 finishAccessGroupCreate env txn txMeta blockHeight ti0 to0 ops0 ?key ?apk
                   existingEntry newAccessMembers newMuteList newUnmuteList bav2
                 = (Inr (totalInput, totalOutput, utxoOps), bav'))"
    by blast
  from op assms(1,3) have op': "op = AccessGroupOperationAddMembers" by simp
  have m1: "GroupMembershipKeyToAccessGroupMember bav1 = GroupMembershipKeyToAccessGroupMember bav"
    using get_registry_frame(1)[of env ?key "bav\<lparr>BasicTransferState := u\<rparr>"] get by simp
  from switch_add_members_post_fork[OF assms(1) sw[unfolded op']]
  have m2: "GroupMembershipKeyToAccessGroupMember bav2 = GroupMembershipKeyToAccessGroupMember bav1"
    and shape: "sw = SwitchLists (AccessGroupMembers_c txMeta) [] [] \<or> (\<exists>err. sw = SwitchError err)"
    by simp_all
  from shape fin have sw': "sw = SwitchLists (AccessGroupMembers_c txMeta) [] []"
    by auto
  with fin have fin': "finishAccessGroupCreate env txn txMeta blockHeight ti0 to0 ops0 ?key ?apk
                   existingEntry (AccessGroupMembers_c txMeta) [] [] bav2
                 = (Inr (totalInput, totalOutput, utxoOps), bav')"
    by simp
  from finish_success[OF assms(4) fin'] obtain extraData where
    b: "bav' = setAccessGroupKeyToAccessGroupEntryMapping (OwnerPublicKey ?key)
                 (Some (NewAccessGroupEntry (OwnerPublicKey ?key) ?apk
                          (NewGroupKeyName (AccessGroupKeyName_c txMeta))
                          (AccessGroupMembers_c txMeta) extraData blockHeight))
                 bav2"
    by (auto split: if_splits)
  have k: "\<lparr>OwnerPublicKey = OwnerPublicKey ?key,
            GroupKeyName = NewGroupKeyName (AccessGroupKeyName_c txMeta)\<rparr> = ?key"
    using transactionGroupKey_key[of env "PublicKey txn" "AccessPublicKey_c txMeta"
            "AccessGroupKeyName_c txMeta"] by simp
  have "AccessGroupKeyToAccessGroupEntry bav' ?key
          = Some (NewAccessGroupEntry (OwnerPublicKey ?key) ?apk
                    (NewGroupKeyName (AccessGroupKeyName_c txMeta))
                    (AccessGroupMembers_c txMeta) extraData blockHeight)"
    unfolding b using k
    by (simp add: setAccessGroupKeyToAccessGroupEntryMapping_def NewAccessGroupEntry_def)
  moreover have "GroupMembershipKeyToAccessGroupMember bav' = GroupMembershipKeyToAccessGroupMember bav"
    unfolding b using m1 m2 by (simp add: setRegistry_frame)
  ultimately show ?thesis
    by (simp add: NewAccessGroupEntry_def)
qed

lemma getMember_attributes_frame:
  "GroupMemberAttributes (snd (GetAccessGroupMember env m opk n h bav)) = GroupMemberAttributes bav"
  by (simp add: GetAccessGroupMember_def setGroupMembershipKeyToAccessGroupMemberMapping_def
      split: option.splits)

lemma getMember_keyed:
  "membershipKeyed bav \<Longrightarrow> membershipKeyed (snd (GetAccessGroupMember env m opk n h bav))"
  by (auto simp: membershipKeyed_def GetAccessGroupMember_def NewGroupMembershipKey_def
      setGroupMembershipKeyToAccessGroupMemberMapping_def split: option.splits)

lemma getMember_found_key:
  assumes "storeMembersKeyed env" and "membershipKeyed bav"
    and "fst (GetAccessGroupMember env (Some m) (Some opk) (Some n) h bav) = Some x"
  shows "GroupMemberPublicKey x = m"
  using assms
  by (auto simp: storeMembersKeyed_def membershipKeyed_def GetAccessGroupMember_def
      NewGroupMembershipKey_def split: option.splits)

lemma getMember_stable:
  assumes "storeMembersKeyed env"
  shows "fst (GetAccessGroupMember env (Some m') (Some opk) (Some n) h
                (snd (GetAccessGroupMember env (Some m) (Some opk) (Some n) h bav)))
         = fst (GetAccessGroupMember env (Some m') (Some opk) (Some n) h bav)"
  using assms
  by (auto simp: storeMembersKeyed_def GetAccessGroupMember_def NewGroupMembershipKey_def
      setGroupMembershipKeyToAccessGroupMemberMapping_def split: option.splits)

lemma getAttribute_depends:
  "GroupMemberAttributes bav1 = GroupMemberAttributes bav \<Longrightarrow>
   GetGroupMemberAttributeEntry env k t bav1 = GetGroupMemberAttributeEntry env k t bav"
  by (simp add: GetGroupMemberAttributeEntry_def)

lemma muteTargetAccepted_step:
  assumes "storeMembersKeyed env"
  shows "muteTargetAccepted env e h
           (snd (GetAccessGroupMember env (Some p) (Some (GroupOwnerPublicKey e))
                   (Some (AccessGroupKeyName e)) h bav)) m
         = muteTargetAccepted env e h bav m"
proof -
  let ?bav1 = "snd (GetAccessGroupMember env (Some p) (Some (GroupOwnerPublicKey e))
                      (Some (AccessGroupKeyName e)) h bav)"
  have f: "GroupMemberAttributes ?bav1 = GroupMemberAttributes bav"
    by (rule getMember_attributes_frame)
  show ?thesis
    unfolding muteTargetAccepted_def
    using getMember_stable[OF assms, of "GroupMemberPublicKey m" "GroupOwnerPublicKey e"
            "AccessGroupKeyName e" h p bav]
          getAttribute_depends[OF f, of env]
    by simp
qed

lemma validateMuteMembers_success:
  assumes "storeMembersKeyed env" and "membershipKeyed bav"
    and "validateMuteMembers env e ts acc h bav = (Inr r, bav2)"
  shows "map Some r = map Some acc @ ts
         \<and> (\<forall>t\<in>set ts. \<exists>m. t = Some m \<and> muteTargetAccepted env e h bav m)
         \<and> GroupMemberAttributes bav2 = GroupMemberAttributes bav"
  using assms(2,3)
proof (induction ts arbitrary: acc bav)
  case Nil
  then show ?case by simp
next
  case (Cons t ts)
  show ?case
  proof (cases t)
    case None
    with Cons.prems show ?thesis by simp
  next
    case (Some m)
    let ?g = "GetAccessGroupMember env (Some (GroupMemberPublicKey m))
                (Some (GroupOwnerPublicKey e)) (Some (AccessGroupKeyName e)) h bav"
    obtain found bav1 where g: "?g = (found, bav1)" by (cases ?g)
    from Cons.prems(2) Some g
    have notOwner: "GroupMemberPublicKey m \<noteq> GroupOwnerPublicKey e"
      by (auto split: if_splits)
    from Cons.prems(2) Some g notOwner obtain member where found: "found = Some member"
      by (cases found) auto
    have pk: "GroupMemberPublicKey member = GroupMemberPublicKey m"
      using getMember_found_key[OF assms(1) Cons.prems(1), of "GroupMemberPublicKey m"
              "GroupOwnerPublicKey e" "AccessGroupKeyName e" h member] g found
      by simp
    let ?k = "NewGroupEnumerationKey (GroupOwnerPublicKey e) (AccessGroupKeyName e)
                (GroupMemberPublicKey m)"
    from Cons.prems(2) Some g notOwner found pk obtain a where
      a: "GetGroupMemberAttributeEntry env ?k (AccessGroupMemberAttributeIsMuted env) bav1 = Inr a"
      and notSet: "\<not> (case a of None \<Rightarrow> False | Some x \<Rightarrow> IsSet x)"
      and rest: "validateMuteMembers env e ts (acc @ [m]) h bav1 = (Inr r, bav2)"
      by (auto split: sum.splits if_splits)
    have b1: "bav1 = snd ?g" using g by simp
    have attrs: "GroupMemberAttributes bav1 = GroupMemberAttributes bav"
      unfolding b1 by (rule getMember_attributes_frame)
    have keyed1: "membershipKeyed bav1"
      unfolding b1 by (rule getMember_keyed[OF Cons.prems(1)])
    from Cons.IH[OF keyed1 rest]
    have ih1: "map Some r = map Some (acc @ [m]) @ ts"
      and ih2: "\<forall>t\<in>set ts. \<exists>m'. t = Some m' \<and> muteTargetAccepted env e h bav1 m'"
      and ih3: "GroupMemberAttributes bav2 = GroupMemberAttributes bav1"
      by simp_all
    have step: "muteTargetAccepted env e h bav1 m' = muteTargetAccepted env e h bav m'" for m'
      unfolding b1 by (rule muteTargetAccepted_step[OF assms(1)])
    have acc_m: "muteTargetAccepted env e h bav m"
      unfolding muteTargetAccepted_def
      using notOwner g found a notSet getAttribute_depends[OF attrs, of env ?k
               "AccessGroupMemberAttributeIsMuted env"]
      by simp
    show ?thesis
      using ih1 ih2 ih3 attrs acc_m Some step by simp
  qed
qed

lemma length_NewGroupKeyName: "length (NewGroupKeyName n) = MaxAccessKeyNameCharacters"
  by (simp add: NewGroupKeyName_def)

lemma NewGroupKeyName_idem: "NewGroupKeyName (NewGroupKeyName n) = NewGroupKeyName n"
  by (rule NewGroupKeyName_fixed[OF length_NewGroupKeyName])

lemma getAttribute_after_set:
  "GetGroupMemberAttributeEntry env k t (setGroupMemberAttributeMapping k' t' v bav)
     = (if k = k' \<and> t = t' then Inr (Some v) else GetGroupMemberAttributeEntry env k t bav)"
  by (auto simp: GetGroupMemberAttributeEntry_def setGroupMemberAttributeMapping_def
      split: option.splits)

lemma setMutedAttributes_keeps:
  "GetGroupMemberAttributeEntry env k (AccessGroupMemberAttributeIsMuted env) bav
     = Inr (Some (NewAttributeEntry b [])) \<Longrightarrow>
   GetGroupMemberAttributeEntry env k (AccessGroupMemberAttributeIsMuted env)
     (setMutedAttributes env entry b ms bav) = Inr (Some (NewAttributeEntry b []))"
  by (induction ms arbitrary: bav) (simp_all add: getAttribute_after_set)

lemma setMutedAttributes_written:
  "m \<in> set ms \<Longrightarrow>
   GetGroupMemberAttributeEntry env
     (NewGroupEnumerationKey (GroupOwnerPublicKey entry) (AccessGroupKeyName entry)
        (GroupMemberPublicKey m))
     (AccessGroupMemberAttributeIsMuted env) (setMutedAttributes env entry b ms bav)
   = Inr (Some (NewAttributeEntry b []))"
proof (induction ms arbitrary: bav)
  case Nil
  then show ?case by simp
next
  case (Cons x ms)
  show ?case
  proof (cases "m = x")
    case True
    then show ?thesis
      by (simp add: setMutedAttributes_keeps getAttribute_after_set)
  next
    case False
    with Cons show ?thesis by simp
  qed
qed

lemma switch_mute_members:
  assumes "switchAccessGroupOperation env txMeta blockHeight AccessGroupOperationMuteMembers
             accessPublicKey existingEntry bav = (sw, bav2)"
  shows "(\<exists>err. sw = SwitchError err)
         \<or> (\<exists>e r. liveEntry existingEntry = Some e
                  \<and> validateMuteMembers env e (AccessGroupMembers_c txMeta) [] blockHeight bav
                      = (Inr r, bav2)
                  \<and> sw = SwitchLists [] r [])"
  using assms
  by (auto simp: switchAccessGroupOperation_def split: option.splits sum.splits prod.splits)

lemma getRegistry_basic:
  "fst (GetAccessGroupKeyToAccessGroupEntryMapping env k (bav\<lparr>BasicTransferState := u\<rparr>))
     = fst (GetAccessGroupKeyToAccessGroupEntryMapping env k bav)"
  by (simp add: GetAccessGroupKeyToAccessGroupEntryMapping_def split: option.splits)

lemma muteTargetAccepted_depends:
  assumes "GroupMembershipKeyToAccessGroupMember bav1 = GroupMembershipKeyToAccessGroupMember bav"
    and "GroupMemberAttributes bav1 = GroupMemberAttributes bav"
  shows "muteTargetAccepted env e h bav1 m = muteTargetAccepted env e h bav m"
proof -
  have "fst (GetAccessGroupMember env mp op' n h bav1) = fst (GetAccessGroupMember env mp op' n h bav)"
    for mp op' n
    using assms(1) by (simp add: GetAccessGroupMember_def split: option.splits)
  then show ?thesis
    unfolding muteTargetAccepted_def
    using getAttribute_depends[OF assms(2), of env] by simp
qed

text \<open>
  Claim C9. When a create transaction with the \<^verbatim>\<open>MuteMembers\<close> operation is accepted
  at a height at or above the access-groups fork, the group of the transaction exists in
  the view it was applied to and is not tombstoned; every target is a non-nil member that
  is not the group owner, that the membership getter finds in the group and whose
  \<^verbatim>\<open>IsMuted\<close> attribute is not set in that view; and in the view after the connect
  the \<^verbatim>\<open>IsMuted\<close> attribute of every target reads as set, with an empty value. The
  lemmas after the theorem give the error of a rejected transaction.
\<close>

theorem C9_mute_members:
  assumes "DeSoAccessGroupsBlockHeight env \<le> blockHeight"
    and "TxnMeta txn = MetaCreateAccessGroup txMeta"
    and "GetAccessGroupOperation env txn = Inr AccessGroupOperationMuteMembers"
    and "copyReportsFailure env"
    and "storeMembersKeyed env"
    and "membershipKeyed bav"
    and "connectAccessGroupCreate env txn txHash blockHeight verifySignatures bav = (Inr res, bav')"
  shows "\<exists>e. liveEntry
               (fst (GetAccessGroupKeyToAccessGroupEntryMapping env
                       (fst (transactionGroupKey env (PublicKey txn) (AccessPublicKey_c txMeta)
                               (AccessGroupKeyName_c txMeta))) bav)) = Some e
             \<and> (\<forall>t\<in>set (AccessGroupMembers_c txMeta).
                   \<exists>m. t = Some m
                     \<and> muteTargetAccepted env e blockHeight bav m
                     \<and> GetGroupMemberAttributeEntry env
                          (NewGroupEnumerationKey
                             (OwnerPublicKey
                                (fst (transactionGroupKey env (PublicKey txn)
                                        (AccessPublicKey_c txMeta) (AccessGroupKeyName_c txMeta))))
                             (AccessGroupKeyName_c txMeta) (GroupMemberPublicKey m))
                          (AccessGroupMemberAttributeIsMuted env) bav'
                        = Inr (Some (NewAttributeEntry True [])))"
proof -
  let ?key = "fst (transactionGroupKey env (PublicKey txn) (AccessPublicKey_c txMeta)
                     (AccessGroupKeyName_c txMeta))"
  let ?apk = "snd (transactionGroupKey env (PublicKey txn) (AccessPublicKey_c txMeta)
                     (AccessGroupKeyName_c txMeta))"
  from connect_create_success[OF assms(7) assms(2)]
  obtain ti0 to0 ops0 u op existingEntry bav1 sw bav2 where
    op: "(if blockHeight < DeSoAccessGroupsBlockHeight env
          then Inr AccessGroupOperationAddMembers
          else GetAccessGroupOperation env txn) = Inr op"
    and get: "GetAccessGroupKeyToAccessGroupEntryMapping env ?key (bav\<lparr>BasicTransferState := u\<rparr>)
               = (existingEntry, bav1)"
    and sw: "switchAccessGroupOperation env txMeta blockHeight op ?apk existingEntry bav1 = (sw, bav2)"
    and fin: "(case sw of
               SwitchError err \<Rightarrow> False
             | SwitchReturnsNil \<Rightarrow> res = (0, 0, []) \<and> bav' = bav2
             | SwitchLists newAccessMembers newMuteList newUnmuteList \<Rightarrow>
                 finishAccessGroupCreate env txn txMeta blockHeight ti0 to0 ops0 ?key ?apk
                   existingEntry newAccessMembers newMuteList newUnmuteList bav2
                 = (Inr res, bav'))"
    by blast
  from op assms(1,3) have op': "op = AccessGroupOperationMuteMembers" by simp
  from switch_mute_members[OF sw[unfolded op']] fin
  obtain e r where live: "liveEntry existingEntry = Some e"
    and val: "validateMuteMembers env e (AccessGroupMembers_c txMeta) [] blockHeight bav1
                = (Inr r, bav2)"
    and sw': "sw = SwitchLists [] r []"
    by auto
  have ex: "existingEntry = fst (GetAccessGroupKeyToAccessGroupEntryMapping env ?key bav)"
    using get getRegistry_basic[where env=env and bav=bav and u=u and k="?key"] by simp
  have b1: "bav1 = snd (GetAccessGroupKeyToAccessGroupEntryMapping env ?key
                          (bav\<lparr>BasicTransferState := u\<rparr>))"
    using get by simp
  have m1: "GroupMembershipKeyToAccessGroupMember bav1 = GroupMembershipKeyToAccessGroupMember bav"
    unfolding b1 by (simp add: get_registry_frame)
  have a1: "GroupMemberAttributes bav1 = GroupMemberAttributes bav"
    unfolding b1 by (simp add: get_registry_frame)
  have keyed1: "membershipKeyed bav1"
    using assms(6) m1 by (simp add: membershipKeyed_def)
  from validateMuteMembers_success[OF assms(5) keyed1 val]
  have r: "map Some r = AccessGroupMembers_c txMeta"
    and acc: "\<forall>t\<in>set (AccessGroupMembers_c txMeta).
                \<exists>m. t = Some m \<and> muteTargetAccepted env e blockHeight bav1 m"
    by simp_all
  from fin sw' have fin': "finishAccessGroupCreate env txn txMeta blockHeight ti0 to0 ops0 ?key ?apk
                   existingEntry [] r [] bav2 = (Inr res, bav')"
    by simp
  from finish_success[OF assms(4) fin'] assms(1) obtain extraData where
    b: "bav' = setAccessGroupKeyToAccessGroupEntryMapping (OwnerPublicKey ?key)
                 (Some (NewAccessGroupEntry (OwnerPublicKey ?key) ?apk
                          (NewGroupKeyName (AccessGroupKeyName_c txMeta)) [] extraData blockHeight))
                 (setMutedAttributes env
                    (NewAccessGroupEntry (OwnerPublicKey ?key) ?apk
                       (NewGroupKeyName (AccessGroupKeyName_c txMeta)) [] extraData blockHeight)
                    True r bav2)"
    by auto
  let ?entry = "NewAccessGroupEntry (OwnerPublicKey ?key) ?apk
                  (NewGroupKeyName (AccessGroupKeyName_c txMeta)) [] extraData blockHeight"
  have written: "GetGroupMemberAttributeEntry env
                   (NewGroupEnumerationKey (OwnerPublicKey ?key) (AccessGroupKeyName_c txMeta)
                      (GroupMemberPublicKey m))
                   (AccessGroupMemberAttributeIsMuted env) bav'
                 = Inr (Some (NewAttributeEntry True []))"
    if "Some m \<in> set (AccessGroupMembers_c txMeta)" for m
  proof -
    from that r have "m \<in> set r" by (metis image_iff option.inject set_map)
    from setMutedAttributes_written[OF this, of env ?entry True bav2]
    have "GetGroupMemberAttributeEntry env
            (NewGroupEnumerationKey (OwnerPublicKey ?key) (AccessGroupKeyName_c txMeta)
               (GroupMemberPublicKey m))
            (AccessGroupMemberAttributeIsMuted env) (setMutedAttributes env ?entry True r bav2)
          = Inr (Some (NewAttributeEntry True []))"
      by (simp add: NewAccessGroupEntry_def NewGroupEnumerationKey_def NewGroupKeyName_idem)
    then show ?thesis
      unfolding b
      using getAttribute_depends[OF setRegistry_frame(2), of env] by simp
  qed
  have "\<forall>t\<in>set (AccessGroupMembers_c txMeta).
          \<exists>m. t = Some m \<and> muteTargetAccepted env e blockHeight bav m
             \<and> GetGroupMemberAttributeEntry env
                  (NewGroupEnumerationKey (OwnerPublicKey ?key) (AccessGroupKeyName_c txMeta)
                     (GroupMemberPublicKey m))
                  (AccessGroupMemberAttributeIsMuted env) bav'
                = Inr (Some (NewAttributeEntry True []))"
  proof
    fix t assume t: "t \<in> set (AccessGroupMembers_c txMeta)"
    with acc obtain m where m: "t = Some m" "muteTargetAccepted env e blockHeight bav1 m"
      by blast
    from m(2) have "muteTargetAccepted env e blockHeight bav m"
      using muteTargetAccepted_depends[OF m1 a1, of env e blockHeight m] by simp
    moreover from t m(1) have "Some m \<in> set (AccessGroupMembers_c txMeta)" by simp
    ultimately show "\<exists>m. t = Some m \<and> muteTargetAccepted env e blockHeight bav m
             \<and> GetGroupMemberAttributeEntry env
                  (NewGroupEnumerationKey (OwnerPublicKey ?key) (AccessGroupKeyName_c txMeta)
                     (GroupMemberPublicKey m))
                  (AccessGroupMemberAttributeIsMuted env) bav'
                = Inr (Some (NewAttributeEntry True []))"
      using m(1) written by blast
  qed
  with live ex show ?thesis by blast
qed

end
